theory Spec2Isabelle
  imports Main "HOL-Library.Word"
begin

section \<open>Basic types\<close>

type_synonym bytes = "8 word list"

type_synonym uint128 = "128 word"

text \<open>
  Go's \<open>error\<close> values. The named sentinels are the ones the transaction code returns or
  compares against; \<open>ErrExternal\<close> stands for an error produced by a collaborator outside
  the given sources (JSON, protobuf, crypto, the script engine).
\<close>

datatype error =
    ErrNilArgument
  | ErrInvalidArgument
  | ErrTxDataPayLoadOutOfMaxLength
  | ErrOutOfGasLimit
  | ErrInsufficientBalance
  | ErrInvalidTxPayloadType
  | ErrContractTransactionAddressNotEqual
  | ErrInvalidChainID
  | ErrInvalidTransactionHash
  | ErrInvalidTransactionSigner
  | ErrUint128Overflow
  | ErrUint128Underflow
  | ErrBalanceInsufficient
  | ErrExternal string

section \<open>util.Uint128\<close>

text \<open>
  Modelled from the spec: the package \<open>util\<close> with the type \<open>Uint128\<close> is not among the
  given sources. The spec describes it as an unsigned 128-bit integer with error-returning
  add, subtract and multiply and a comparison; "all arithmetic fails with an overflow error
  rather than wrapping". A value is a \<open>128 word\<close>; the operations check the mathematical
  result against the range before returning it. \<open>NewUint128()\<close> is the value zero: the
  spec reads the comparison with it in \<open>NewTransaction\<close> as "non-positive". \<open>Cmp\<close> returns
  -1, 0 or 1.
\<close>

definition NewUint128 :: uint128 where
  "NewUint128 = 0"

definition Uint128_Add :: "uint128 \<Rightarrow> uint128 \<Rightarrow> error + uint128" where
  "Uint128_Add a b =
     (if unat a + unat b < 2 ^ 128 then Inr (a + b) else Inl ErrUint128Overflow)"

definition Uint128_Sub :: "uint128 \<Rightarrow> uint128 \<Rightarrow> error + uint128" where
  "Uint128_Sub a b =
     (if unat b \<le> unat a then Inr (a - b) else Inl ErrUint128Underflow)"

definition Uint128_Mul :: "uint128 \<Rightarrow> uint128 \<Rightarrow> error + uint128" where
  "Uint128_Mul a b =
     (if unat a * unat b < 2 ^ 128 then Inr (a * b) else Inl ErrUint128Overflow)"

definition Uint128_Cmp :: "uint128 \<Rightarrow> uint128 \<Rightarrow> int" where
  "Uint128_Cmp a b = (if unat a < unat b then - 1 else if unat a = unat b then 0 else 1)"

text \<open>
  Modelled from the spec: \<open>NewUint128FromInt\<close> takes a Go \<open>int64\<close>; a negative argument is
  not an unsigned value and is refused, every other \<open>int64\<close> fits in 128 bits.
\<close>

definition NewUint128FromInt :: "64 word \<Rightarrow> error + uint128" where
  "NewUint128FromInt i =
     (if sint i < 0 then Inl ErrUint128Underflow else Inr (ucast i))"

section \<open>Transactions\<close>

record Address =
  address :: bytes

text \<open>\<open>corepb.Data\<close>: the payload type tag and the raw payload bytes.\<close>

record Data =
  Type :: string
  Payload :: bytes

text \<open>
  The struct \<open>Transaction\<close>. The fields carry the prefix \<open>tx_\<close> because \<open>from\<close>, \<open>value\<close>
  and \<open>hash\<close> are reserved words or constants here. \<open>from\<close> and \<open>to\<close> are pointers in the
  source; every method dereferences them, and \<open>NewTransaction\<close> refuses nil, so a
  transaction holds addresses.
\<close>

record Transaction =
  tx_hash :: bytes
  tx_from :: Address
  tx_to :: Address
  tx_value :: uint128
  tx_nonce :: "64 word"
  tx_timestamp :: "64 word"
  tx_data :: Data
  tx_chainID :: "32 word"
  tx_gasPrice :: uint128
  tx_gasLimit :: uint128
  tx_alg :: "8 word"
  tx_sign :: bytes

subsection \<open>Package constants\<close>

definition TransactionGasPrice :: uint128 where
  "TransactionGasPrice = 1000000"

definition MinGasCountPerTransaction :: uint128 where
  "MinGasCountPerTransaction = 20000"

definition GasCountPerByte :: uint128 where
  "GasCountPerByte = 1"

definition MaxDataPayLoadLength :: nat where
  "MaxDataPayLoadLength = 1024 * 1024"

subsection \<open>NewTransaction\<close>

text \<open>
  Pointer arguments that may be nil are options. \<open>time.Now().Unix()\<close> is the argument
  \<open>now\<close>. The hash, the algorithm and the signature of the new transaction are Go's zero
  values.
\<close>

definition NewTransaction ::
  "64 word \<Rightarrow> 32 word \<Rightarrow> Address option \<Rightarrow> Address option \<Rightarrow> uint128 option \<Rightarrow> 64 word \<Rightarrow>
   string \<Rightarrow> bytes \<Rightarrow> uint128 option \<Rightarrow> uint128 option \<Rightarrow> error + Transaction" where
  "NewTransaction now chainID from to val nonce payloadType payload gasPrice gasLimit =
     (let gasPrice1 =
            (case gasPrice of
               None \<Rightarrow> TransactionGasPrice
             | Some p \<Rightarrow> if Uint128_Cmp p NewUint128 \<le> 0 then TransactionGasPrice else p);
          gasLimit1 =
            (case gasLimit of
               None \<Rightarrow> MinGasCountPerTransaction
             | Some l \<Rightarrow> if Uint128_Cmp l NewUint128 \<le> 0 then MinGasCountPerTransaction else l)
      in case (from, to, val) of
           (Some f, Some t, Some v) \<Rightarrow>
             if length payload > MaxDataPayLoadLength then Inl ErrTxDataPayLoadOutOfMaxLength
             else Inr \<lparr> tx_hash = [], tx_from = f, tx_to = t, tx_value = v, tx_nonce = nonce,
                        tx_timestamp = now,
                        tx_data = \<lparr> Type = payloadType, Payload = payload \<rparr>,
                        tx_chainID = chainID,
                        tx_gasPrice = gasPrice1, tx_gasLimit = gasLimit1,
                        tx_alg = 0, tx_sign = [] \<rparr>
         | _ \<Rightarrow> Inl ErrInvalidArgument)"

subsection \<open>Gas accounting\<close>

definition DataLen :: "Transaction \<Rightarrow> nat" where
  "DataLen tx = length (Payload (tx_data tx))"

text \<open>
  \<open>GasCountOfTxBase\<close>: the minimum gas count, plus one unit per payload byte when there is
  a payload. \<open>int64(tx.DataLen())\<close> is the conversion of the length to a 64-bit word.
\<close>

definition GasCountOfTxBase :: "Transaction \<Rightarrow> error + uint128" where
  "GasCountOfTxBase tx =
     (let txGas = MinGasCountPerTransaction in
      if DataLen tx > 0 then
        (case NewUint128FromInt (word_of_nat (DataLen tx)) of
           Inl err \<Rightarrow> Inl err
         | Inr dataLen \<Rightarrow>
            (case Uint128_Mul dataLen GasCountPerByte of
               Inl err \<Rightarrow> Inl err
             | Inr dataGas \<Rightarrow>
                (case Uint128_Add txGas dataGas of
                   Inl err \<Rightarrow> Inl err
                 | Inr txGas1 \<Rightarrow> Inr txGas1)))
      else Inr txGas)"

definition MinBalanceRequired :: "Transaction \<Rightarrow> error + uint128" where
  "MinBalanceRequired tx =
     (case Uint128_Mul (tx_gasPrice tx) (tx_gasLimit tx) of
        Inl err \<Rightarrow> Inl err
      | Inr total0 \<Rightarrow>
         (case Uint128_Add total0 (tx_value tx) of
            Inl err \<Rightarrow> Inl err
          | Inr total1 \<Rightarrow> Inr total1))"

section \<open>The world state\<close>

text \<open>
  Modelled from the spec: the account state, the block (the "world-state snapshot") and
  the accounts are declared in packages outside the given sources. The spec gives their
  contract: an account has a balance (128-bit unsigned, never negative) and a nonce and is
  keyed by its address, a contract account also refers to its code; the snapshot offers
  \<open>get_or_create_user_account\<close>, \<open>create_contract_account\<close>, \<open>sub_balance\<close> and
  \<open>add_balance\<close> returning a result, \<open>clone\<close>, \<open>merge\<close>, \<open>coinbase\<close> and \<open>record_event\<close>.
  An account object of the source is a reference into the state; here it is the address
  under which the account is stored, and every access goes through the state.
\<close>

record Account =
  balance :: uint128
  nonce :: "64 word"
  birthPlace :: "bytes option"

type_synonym AccountState = "bytes \<rightharpoonup> Account"

text \<open>
  The topic and the two status values are constants declared outside the given sources;
  only their distinctness matters here.
\<close>

datatype topic = TopicTransactionExecutionResult

datatype tx_status = TxExecutionFailed | TxExecutionSuccess

record Event =
  Topic :: topic
  EventData :: string

record Block =
  accState :: AccountState
  events :: "(bytes \<times> Event) list"
  coinbase :: Address

text \<open>
  Modelled from the spec: \<open>get_or_create_user_account\<close> looks the account up and
  materialises a fresh one (zero balance, zero nonce, no code) when the address has none.
\<close>

definition GetOrCreateUserAccount :: "AccountState \<Rightarrow> bytes \<Rightarrow> AccountState \<times> (error + bytes)" where
  "GetOrCreateUserAccount st addr =
     (case st addr of
        Some acc \<Rightarrow> (st, Inr addr)
      | None \<Rightarrow> (st(addr \<mapsto> \<lparr> balance = NewUint128, nonce = 0, birthPlace = None \<rparr>), Inr addr))"

text \<open>
  Modelled from the spec: \<open>create_contract_account\<close> stores a fresh contract account
  under the address, bound to the given code identity.
\<close>

definition CreateContractAccount ::
  "AccountState \<Rightarrow> bytes \<Rightarrow> bytes \<Rightarrow> AccountState \<times> (error + bytes)" where
  "CreateContractAccount st addr birth =
     (st(addr \<mapsto> \<lparr> balance = NewUint128, nonce = 0, birthPlace = Some birth \<rparr>), Inr addr)"

text \<open>
  Modelled from the spec: \<open>Balance\<close> reads the balance of the account behind a handle. A
  handle comes from one of the two functions above, so its account exists; for any other
  address the value is zero.
\<close>

definition Balance :: "AccountState \<Rightarrow> bytes \<Rightarrow> uint128" where
  "Balance st acc = (case st acc of Some a \<Rightarrow> balance a | None \<Rightarrow> NewUint128)"

text \<open>
  Modelled from the spec: \<open>sub_balance\<close> fails when the balance would become negative,
  \<open>add_balance\<close> when the sum leaves the 128-bit range; a failed operation changes nothing.
\<close>

definition SubBalance :: "AccountState \<Rightarrow> bytes \<Rightarrow> uint128 \<Rightarrow> AccountState \<times> error option" where
  "SubBalance st acc v =
     (case Uint128_Sub (Balance st acc) v of
        Inl err \<Rightarrow> (st, Some ErrBalanceInsufficient)
      | Inr nb \<Rightarrow> (st(acc := map_option (\<lambda>a. a\<lparr> balance := nb \<rparr>) (st acc)), None))"

definition AddBalance :: "AccountState \<Rightarrow> bytes \<Rightarrow> uint128 \<Rightarrow> AccountState \<times> error option" where
  "AddBalance st acc v =
     (case Uint128_Add (Balance st acc) v of
        Inl err \<Rightarrow> (st, Some err)
      | Inr nb \<Rightarrow> (st(acc := map_option (\<lambda>a. a\<lparr> balance := nb \<rparr>) (st acc)), None))"

text \<open>
  Modelled from the spec: \<open>Clone\<close> yields an independent copy; \<open>Merge\<close> folds the state of a
  child (a clone that was mutated) into its parent; \<open>recordEvent\<close> appends the event to the
  log under the transaction hash.
\<close>

definition Clone :: "Block \<Rightarrow> error + Block" where
  "Clone b = Inr b"

definition Merge :: "Block \<Rightarrow> Block \<Rightarrow> Block" where
  "Merge b target = b\<lparr> accState := accState target, events := events target \<rparr>"

definition recordEvent :: "Block \<Rightarrow> bytes \<Rightarrow> Event \<Rightarrow> Block \<times> error option" where
  "recordEvent b txHash ev = (b\<lparr> events := events b @ [(txHash, ev)] \<rparr>, None)"

section \<open>Payloads\<close>

record DeployPayload =
  SourceType :: string
  Source :: string
  Args :: string

text \<open>
  Modelled from the spec: the binary and the call payload are declared outside the given
  sources; a binary payload carries raw data, a call payload a method and its arguments.
\<close>

record BinaryPayload =
  BinaryData :: bytes

record CallPayload =
  Function :: string
  CallArgs :: string

datatype TxPayload = Binary BinaryPayload | Deploy DeployPayload | Call CallPayload

text \<open>
  Modelled from the spec: the payload type tags are constants declared outside the given
  sources; the spec names them \<open>binary\<close>, \<open>deploy\<close> and \<open>call\<close>.
\<close>

definition TxPayloadBinaryType :: string where
  "TxPayloadBinaryType = ''binary''"

definition TxPayloadDeployType :: string where
  "TxPayloadDeployType = ''deploy''"

definition TxPayloadCallType :: string where
  "TxPayloadCallType = ''call''"

section \<open>Collaborators outside the given sources\<close>

text \<open>
  What the code calls but the given sources do not define is a parameter: the decoders and
  the behaviour of the binary and call payloads, the script engine behind \<open>block.nvm\<close>,
  hashing, signatures and address derivation, and the text encodings used for the result
  event. The theorems hold for every choice of them.

  The engine keeps the block it was created for; its run is a function of that block, the
  transaction, the instruction limit and the deploy arguments, and returns the block as
  the run left it.
\<close>

record Payloads =
  LoadBinaryPayload :: "bytes \<Rightarrow> error + BinaryPayload"
  LoadCallPayload :: "bytes \<Rightarrow> error + CallPayload"
  json_Unmarshal :: "bytes \<Rightarrow> error + DeployPayload"
  BinaryPayload_BaseGasCount :: "BinaryPayload \<Rightarrow> uint128"
  CallPayload_BaseGasCount :: "CallPayload \<Rightarrow> uint128"
  BinaryPayload_Execute ::
    "BinaryPayload \<Rightarrow> Block \<Rightarrow> Transaction \<Rightarrow> Block \<times> uint128 \<times> string \<times> error option"
  CallPayload_Execute ::
    "CallPayload \<Rightarrow> Block \<Rightarrow> Transaction \<Rightarrow> Block \<times> uint128 \<times> string \<times> error option"

record NVM =
  CreateEngine :: "Block \<Rightarrow> Transaction \<Rightarrow> bytes \<Rightarrow> bytes \<Rightarrow> error option"
  SetEngineExecutionLimits :: "64 word \<Rightarrow> error option"
  DeployAndInitEngine ::
    "Block \<Rightarrow> Transaction \<Rightarrow> 64 word \<Rightarrow> string \<Rightarrow> string \<Rightarrow> string \<Rightarrow> Block \<times> string \<times> error option"
  ExecutionInstructions ::
    "Block \<Rightarrow> Transaction \<Rightarrow> 64 word \<Rightarrow> string \<Rightarrow> string \<Rightarrow> string \<Rightarrow> error + 64 word"

record Crypto =
  Sha3256 :: "bytes list \<Rightarrow> bytes"
  proto_Marshal :: "Data \<Rightarrow> error + bytes"
  NewSignature :: "8 word \<Rightarrow> error + 8 word"
  RecoverPublic :: "8 word \<Rightarrow> bytes \<Rightarrow> bytes \<Rightarrow> error + bytes"
  Encoded :: "bytes \<Rightarrow> error + bytes"
  NewAddressFromPublicKey :: "bytes \<Rightarrow> error + Address"
  NewContractAddressFromHash :: "bytes \<Rightarrow> error + Address"

record TransactionEvent =
  Hash :: string
  Status :: tx_status
  GasUsed :: string
  Error :: string

record Codec =
  Hash_String :: "bytes \<Rightarrow> string"
  Error_text :: "error \<Rightarrow> string"
  json_Marshal :: "TransactionEvent \<Rightarrow> string"

record Deps =
  payloads :: Payloads
  nvm :: NVM
  crypto :: Crypto
  codec :: Codec

section \<open>Encodings\<close>

text \<open>
  Modelled from the spec: \<open>Uint128.String\<close> prints the value in decimal; the fixed-size
  byte slice of a value is its 16 bytes, big-endian; \<open>byteutils\<close> encodes a 64-bit and a
  32-bit integer big-endian in 8 and 4 bytes.
\<close>

fun decimal :: "nat \<Rightarrow> string" where
  "decimal n =
     (if n < 10 then [''0123456789'' ! n]
      else decimal (n div 10) @ [''0123456789'' ! (n mod 10)])"

definition big_endian :: "nat \<Rightarrow> 'a::len word \<Rightarrow> bytes" where
  "big_endian n w = map (\<lambda>i. ucast (drop_bit (8 * (n - 1 - i)) w)) [0..<n]"

definition Uint128_String :: "uint128 \<Rightarrow> string" where
  "Uint128_String v = decimal (unat v)"

definition ToFixedSizeByteSlice :: "uint128 \<Rightarrow> error + bytes" where
  "ToFixedSizeByteSlice v = Inr (big_endian 16 v)"

definition FromUint64 :: "64 word \<Rightarrow> bytes" where
  "FromUint64 v = big_endian 8 v"

definition FromInt64 :: "64 word \<Rightarrow> bytes" where
  "FromInt64 v = big_endian 8 v"

definition FromUint32 :: "32 word \<Rightarrow> bytes" where
  "FromUint32 v = big_endian 4 v"

text \<open>Modelled from the spec: two addresses are equal when their bytes are.\<close>

definition Address_Equals :: "Address \<Rightarrow> Address \<Rightarrow> bool" where
  "Address_Equals a b = (address a = address b)"

section \<open>Payload dispatch\<close>

definition LoadDeployPayload :: "Deps \<Rightarrow> bytes \<Rightarrow> error + DeployPayload" where
  "LoadDeployPayload deps bs =
     (case json_Unmarshal (payloads deps) bs of
        Inl err \<Rightarrow> Inl err
      | Inr payload \<Rightarrow> Inr payload)"

definition LoadPayload :: "Deps \<Rightarrow> Transaction \<Rightarrow> error + TxPayload" where
  "LoadPayload deps tx =
     (if Type (tx_data tx) = TxPayloadBinaryType then
        (case LoadBinaryPayload (payloads deps) (Payload (tx_data tx)) of
           Inl err \<Rightarrow> Inl err | Inr p \<Rightarrow> Inr (Binary p))
      else if Type (tx_data tx) = TxPayloadDeployType then
        (case LoadDeployPayload deps (Payload (tx_data tx)) of
           Inl err \<Rightarrow> Inl err | Inr p \<Rightarrow> Inr (Deploy p))
      else if Type (tx_data tx) = TxPayloadCallType then
        (case LoadCallPayload (payloads deps) (Payload (tx_data tx)) of
           Inl err \<Rightarrow> Inl err | Inr p \<Rightarrow> Inr (Call p))
      else Inl ErrInvalidTxPayloadType)"

definition DeployPayload_BaseGasCount :: "DeployPayload \<Rightarrow> uint128" where
  "DeployPayload_BaseGasCount payload = NewUint128"

text \<open>The interface method \<open>BaseGasCount\<close>, by payload variant.\<close>

definition BaseGasCount :: "Deps \<Rightarrow> TxPayload \<Rightarrow> uint128" where
  "BaseGasCount deps payload =
     (case payload of
        Binary p \<Rightarrow> BinaryPayload_BaseGasCount (payloads deps) p
      | Deploy p \<Rightarrow> DeployPayload_BaseGasCount p
      | Call p \<Rightarrow> CallPayload_BaseGasCount (payloads deps) p)"

definition PayloadGasLimit :: "Deps \<Rightarrow> Transaction \<Rightarrow> TxPayload option \<Rightarrow> error + uint128" where
  "PayloadGasLimit deps tx payload =
     (case payload of
        None \<Rightarrow> Inl ErrNilArgument
      | Some p \<Rightarrow>
         (case GasCountOfTxBase tx of
            Inl err \<Rightarrow> Inl err
          | Inr gasCountOfTxBase \<Rightarrow>
             (case Uint128_Sub (tx_gasLimit tx) gasCountOfTxBase of
                Inl err \<Rightarrow> Inl ErrOutOfGasLimit
              | Inr payloadGasLimit \<Rightarrow>
                 (case Uint128_Sub payloadGasLimit (BaseGasCount deps p) of
                    Inl err \<Rightarrow> Inl ErrOutOfGasLimit
                  | Inr payloadGasLimit1 \<Rightarrow> Inr payloadGasLimit1))))"

definition GenerateContractAddress :: "Deps \<Rightarrow> Transaction \<Rightarrow> error + Address" where
  "GenerateContractAddress deps tx =
     NewContractAddressFromHash (crypto deps)
       (Sha3256 (crypto deps) [address (tx_from tx), FromUint64 (tx_nonce tx)])"

section \<open>Deploy execution\<close>

text \<open>
  \<open>DeployPayload.Execute\<close>. The block and the transaction are pointers that may be nil;
  the block is changed in place, so the function returns it with the results. The engine
  limit \<open>payloadGasLimit.Uint64()\<close> is the low 64 bits; \<open>int64(gasCout)\<close> reads the
  instruction count as a signed 64-bit integer. Disposing the engine leaves no trace in
  the state.
\<close>

definition DeployPayload_Execute ::
  "Deps \<Rightarrow> DeployPayload \<Rightarrow> Block option \<Rightarrow> Transaction option \<Rightarrow>
   Block option \<times> uint128 \<times> string \<times> error option" where
  "DeployPayload_Execute deps payload block tx =
     (case (block, tx) of
        (Some b, Some t) \<Rightarrow>
          if \<not> Address_Equals (tx_from t) (tx_to t) then
            (block, NewUint128, [], Some ErrContractTransactionAddressNotEqual)
          else
            (case PayloadGasLimit deps t (Some (Deploy payload)) of
               Inl err \<Rightarrow> (block, NewUint128, [], Some err)
             | Inr payloadGasLimit \<Rightarrow>
                if Uint128_Cmp payloadGasLimit NewUint128 \<le> 0 then
                  (block, NewUint128, [], Some ErrOutOfGasLimit)
                else
                  (case GenerateContractAddress deps t of
                     Inl err \<Rightarrow> (block, NewUint128, [], Some err)
                   | Inr addr \<Rightarrow>
                      (case GetOrCreateUserAccount (accState b) (address (tx_from t)) of
                         (st1, Inl err) \<Rightarrow> (Some (b\<lparr> accState := st1 \<rparr>), NewUint128, [], Some err)
                       | (st1, Inr owner) \<Rightarrow>
                          (case CreateContractAccount st1 (address addr) (tx_hash t) of
                             (st2, Inl err) \<Rightarrow>
                               (Some (b\<lparr> accState := st2 \<rparr>), NewUint128, [], Some err)
                           | (st2, Inr contract) \<Rightarrow>
                              (let b2 = b\<lparr> accState := st2 \<rparr>;
                                   lim = (ucast payloadGasLimit :: 64 word)
                               in case CreateEngine (nvm deps) b2 t owner contract of
                                    Some err \<Rightarrow> (Some b2, NewUint128, [], Some err)
                                  | None \<Rightarrow>
                                     (case SetEngineExecutionLimits (nvm deps) lim of
                                        Some err \<Rightarrow> (Some b2, NewUint128, [], Some err)
                                      | None \<Rightarrow>
                                         (case DeployAndInitEngine (nvm deps) b2 t lim
                                                 (Source payload) (SourceType payload) (Args payload) of
                                            (b3, result, exeErr) \<Rightarrow>
                                              (case ExecutionInstructions (nvm deps) b2 t lim
                                                      (Source payload) (SourceType payload) (Args payload) of
                                                 Inl err \<Rightarrow> (Some b3, NewUint128, [], Some err)
                                               | Inr gasCout \<Rightarrow>
                                                  (case NewUint128FromInt gasCout of
                                                     Inl err \<Rightarrow> (Some b3, NewUint128, [], Some err)
                                                   | Inr instructions \<Rightarrow>
                                                       (Some b3, instructions, result, exeErr))))))))))
      | _ \<Rightarrow> (block, NewUint128, [], Some ErrNilArgument))"

text \<open>
  The interface method \<open>Execute\<close>, by payload variant, as \<open>VerifyExecution\<close> calls it: on a
  block and a transaction that are not nil.
\<close>

definition Execute ::
  "Deps \<Rightarrow> TxPayload \<Rightarrow> Block \<Rightarrow> Transaction \<Rightarrow> Block \<times> uint128 \<times> string \<times> error option" where
  "Execute deps payload b tx =
     (case payload of
        Binary p \<Rightarrow> BinaryPayload_Execute (payloads deps) p b tx
      | Deploy p \<Rightarrow>
         (case DeployPayload_Execute deps p (Some b) (Some tx) of
            (Some b1, r) \<Rightarrow> (b1, r)
          | (None, r) \<Rightarrow> (b, r))
      | Call p \<Rightarrow> CallPayload_Execute (payloads deps) p b tx)"

section \<open>The execution state machine\<close>

definition transfer :: "Block \<Rightarrow> Address \<Rightarrow> Address \<Rightarrow> uint128 \<Rightarrow> Block \<times> error option" where
  "transfer b from to val =
     (case GetOrCreateUserAccount (accState b) (address from) of
        (st1, Inl err) \<Rightarrow> (b\<lparr> accState := st1 \<rparr>, Some err)
      | (st1, Inr fromAcc) \<Rightarrow>
         (case GetOrCreateUserAccount st1 (address to) of
            (st2, Inl err) \<Rightarrow> (b\<lparr> accState := st2 \<rparr>, Some err)
          | (st2, Inr toAcc) \<Rightarrow>
             (case SubBalance st2 fromAcc val of
                (st3, Some err) \<Rightarrow> (b\<lparr> accState := st3 \<rparr>, Some err)
              | (st3, None) \<Rightarrow>
                 (case AddBalance st3 toAcc val of
                    (st4, err) \<Rightarrow> (b\<lparr> accState := st4 \<rparr>, err)))))"

text \<open>
  \<open>recordResultEvent\<close>. \<open>json.Marshal\<close> of a struct of three strings and a small integer
  has no failing case, so the encoder is a total function and the error return after it
  is not a branch.
\<close>

definition recordResultEvent ::
  "Deps \<Rightarrow> Transaction \<Rightarrow> Block \<Rightarrow> uint128 \<Rightarrow> error option \<Rightarrow> Block \<times> error option" where
  "recordResultEvent deps tx b gasUsed err =
     (let txEvent =
            (case err of
               Some e \<Rightarrow>
                 \<lparr> Hash = Hash_String (codec deps) (tx_hash tx),
                   Status = TxExecutionFailed,
                   GasUsed = Uint128_String gasUsed,
                   Error = Error_text (codec deps) e \<rparr>
             | None \<Rightarrow>
                 \<lparr> Hash = Hash_String (codec deps) (tx_hash tx),
                   Status = TxExecutionSuccess,
                   GasUsed = Uint128_String gasUsed,
                   Error = [] \<rparr>);
          txData = json_Marshal (codec deps) txEvent;
          event = \<lparr> Topic = TopicTransactionExecutionResult, EventData = txData \<rparr>
      in recordEvent b (tx_hash tx) event)"

text \<open>
  \<open>VerifyExecution\<close>. The block is a pointer that may be nil and is changed in place, so
  the function returns it, next to the pair (gas used, error) of the source; a nil gas
  value is \<open>None\<close>. The metrics counters are outside the state described here.
\<close>

definition VerifyExecution ::
  "Deps \<Rightarrow> Transaction \<Rightarrow> Block option \<Rightarrow> Block option \<times> uint128 option \<times> error option" where
  "VerifyExecution deps tx block =
     (case block of
        None \<Rightarrow> (None, None, Some ErrNilArgument)
      | Some b \<Rightarrow>
     \<comment> \<open>step1. check gasLimit >= GasCountOfTxBase()\<close>
     (case GasCountOfTxBase tx of
        Inl err \<Rightarrow> (Some b, None, Some err)
      | Inr gasUsed \<Rightarrow>
     if Uint128_Cmp (tx_gasLimit tx) gasUsed < 0 then (Some b, None, Some ErrOutOfGasLimit)
     else
     \<comment> \<open>step2. check balance >= gasLimit * gasPrice + tx.value\<close>
     (case MinBalanceRequired tx of
        Inl err \<Rightarrow> (Some b, None, Some err)
      | Inr minBalanceRequired \<Rightarrow>
     (case GetOrCreateUserAccount (accState b) (address (tx_from tx)) of
        (st1, Inl err) \<Rightarrow> (Some (b\<lparr> accState := st1 \<rparr>), None, Some err)
      | (st1, Inr fromAcc) \<Rightarrow>
     (let b1 = b\<lparr> accState := st1 \<rparr> in
     if Uint128_Cmp (Balance st1 fromAcc) minBalanceRequired < 0 then
       (Some b1, None, Some ErrInsufficientBalance)
     else
     \<comment> \<open>step3. check payload valid\<close>
     (case LoadPayload deps tx of
        Inl payloadErr \<Rightarrow>
          (case Uint128_Mul (tx_gasPrice tx) gasUsed of
             Inl err \<Rightarrow> (Some b1, None, Some err)
           | Inr gas \<Rightarrow>
              (case transfer b1 (tx_from tx) (coinbase b1) gas of
                 (b2, Some err) \<Rightarrow> (Some b2, None, Some err)
               | (b2, None) \<Rightarrow>
                  (case recordResultEvent deps tx b2 gasUsed (Some payloadErr) of
                     (b3, Some err) \<Rightarrow> (Some b3, None, Some err)
                   | (b3, None) \<Rightarrow> (Some b3, Some gasUsed, None))))
      | Inr payload \<Rightarrow>
     \<comment> \<open>step4. check gasLimit > gas + payload.baseGasCount\<close>
     (case Uint128_Add gasUsed (BaseGasCount deps payload) of
        Inl err \<Rightarrow> (Some b1, None, Some err)
      | Inr gasUsed1 \<Rightarrow>
     if Uint128_Cmp (tx_gasLimit tx) gasUsed1 < 0 then
       (case Uint128_Mul (tx_gasPrice tx) (tx_gasLimit tx) of
          Inl err \<Rightarrow> (Some b1, None, Some err)
        | Inr gas \<Rightarrow>
           (case transfer b1 (tx_from tx) (coinbase b1) gas of
              (b2, Some err) \<Rightarrow> (Some b2, None, Some err)
            | (b2, None) \<Rightarrow>
               (case recordResultEvent deps tx b2 (tx_gasLimit tx) (Some ErrOutOfGasLimit) of
                  (b3, Some err) \<Rightarrow> (Some b3, None, Some err)
                | (b3, None) \<Rightarrow> (Some b3, Some (tx_gasLimit tx), None))))
     else
     \<comment> \<open>step5. transfer tx value, on a clone of the block\<close>
     (case Clone b1 of
        Inl err \<Rightarrow> (Some b1, Some NewUint128, Some err)
      | Inr txBlock \<Rightarrow>
     (case transfer txBlock (tx_from tx) (tx_to tx) (tx_value tx) of
        (txBlock1, Some err) \<Rightarrow> (Some b1, None, Some err)
      | (txBlock1, None) \<Rightarrow>
     \<comment> \<open>step6. execute payload\<close>
     (case Execute deps payload txBlock1 tx of
        (txBlock2, gasExecution, result, exeErr) \<Rightarrow>
     \<comment> \<open>step7. gas + gasExecution\<close>
     (case Uint128_Add gasUsed1 gasExecution of
        Inl gasErr \<Rightarrow> (Some b1, None, Some gasErr)
      | Inr gasUsed2 \<Rightarrow>
     (let over = (Uint128_Cmp (tx_gasLimit tx) gasUsed2 < 0);
          gasUsed3 = (if over then tx_gasLimit tx else gasUsed2);
          exeErr1 = (if over then Some ErrOutOfGasLimit else exeErr);
          \<comment> \<open>only execute success, merge the state to use\<close>
          b2 = (if exeErr1 = None then Merge b1 txBlock2 else b1)
      in
     \<comment> \<open>step8. consume gas\<close>
     (case Uint128_Mul (tx_gasPrice tx) gasUsed3 of
        Inl err \<Rightarrow> (Some b2, None, Some err)
      | Inr gas \<Rightarrow>
     (case transfer b2 (tx_from tx) (coinbase b2) gas of
        (b3, Some err) \<Rightarrow> (Some b3, None, Some err)
      | (b3, None) \<Rightarrow>
     (case recordResultEvent deps tx b3 gas exeErr1 of
        (b4, Some err) \<Rightarrow> (Some b4, None, Some err)
      | (b4, None) \<Rightarrow> (Some b4, Some gasUsed3, None))))))))))))))))"

section \<open>Integrity\<close>

definition HashTransaction :: "Deps \<Rightarrow> Transaction \<Rightarrow> error + bytes" where
  "HashTransaction deps tx =
     (case ToFixedSizeByteSlice (tx_value tx) of
        Inl err \<Rightarrow> Inl err
      | Inr val \<Rightarrow>
         (case proto_Marshal (crypto deps) (tx_data tx) of
            Inl err \<Rightarrow> Inl err
          | Inr dat \<Rightarrow>
             (case ToFixedSizeByteSlice (tx_gasPrice tx) of
                Inl err \<Rightarrow> Inl err
              | Inr gasPrice \<Rightarrow>
                 (case ToFixedSizeByteSlice (tx_gasLimit tx) of
                    Inl err \<Rightarrow> Inl err
                  | Inr gasLimit \<Rightarrow>
                      Inr (Sha3256 (crypto deps)
                             [address (tx_from tx), address (tx_to tx), val,
                              FromUint64 (tx_nonce tx), FromInt64 (tx_timestamp tx), dat,
                              FromUint32 (tx_chainID tx), gasPrice, gasLimit])))))"

definition verifySign :: "Deps \<Rightarrow> Transaction \<Rightarrow> error option" where
  "verifySign deps tx =
     (case NewSignature (crypto deps) (tx_alg tx) of
        Inl err \<Rightarrow> Some err
      | Inr signature \<Rightarrow>
         (case RecoverPublic (crypto deps) signature (tx_hash tx) (tx_sign tx) of
            Inl err \<Rightarrow> Some err
          | Inr pub \<Rightarrow>
             (case Encoded (crypto deps) pub of
                Inl err \<Rightarrow> Some err
              | Inr pubdata \<Rightarrow>
                 (case NewAddressFromPublicKey (crypto deps) pubdata of
                    Inl err \<Rightarrow> Some err
                  | Inr addr \<Rightarrow>
                     if \<not> Address_Equals (tx_from tx) addr then Some ErrInvalidTransactionSigner
                     else None))))"

definition VerifyIntegrity :: "Deps \<Rightarrow> Transaction \<Rightarrow> 32 word \<Rightarrow> error option" where
  "VerifyIntegrity deps tx chainID =
     (if tx_chainID tx \<noteq> chainID then Some ErrInvalidChainID
      else
        (case HashTransaction deps tx of
           Inl err \<Rightarrow> Some err
         | Inr wantedHash \<Rightarrow>
            if (wantedHash = tx_hash tx) = False then Some ErrInvalidTransactionHash
            else verifySign deps tx))"

section \<open>Concrete inputs\<close>

text \<open>
  Inputs on which the theorems below are evaluated: three addresses, a choice of the
  collaborators, and a few transactions and blocks. In \<open>ex_deps\<close> a binary payload costs
  nothing and does nothing, a call payload has a base cost of 60, the JSON text \<open>{}\<close>
  decodes to the empty deploy payload, the engine reports 100 instructions, every
  digest is the single byte 7, and the key recovered from a signature is the signature.
\<close>

definition ex_sender :: Address where
  "ex_sender = \<lparr> address = [1] \<rparr>"

definition ex_recipient :: Address where
  "ex_recipient = \<lparr> address = [2] \<rparr>"

definition ex_coinbase :: Address where
  "ex_coinbase = \<lparr> address = [3] \<rparr>"

definition ex_payloads :: Payloads where
  "ex_payloads =
     \<lparr> LoadBinaryPayload = (\<lambda>bs. Inr \<lparr> BinaryData = bs \<rparr>),
       LoadCallPayload = (\<lambda>bs. Inr \<lparr> Function = ''f'', CallArgs = [] \<rparr>),
       json_Unmarshal =
         (\<lambda>bs. if bs = [123, 125] then Inr \<lparr> SourceType = [], Source = [], Args = [] \<rparr>
               else Inl (ErrExternal ''json'')),
       BinaryPayload_BaseGasCount = (\<lambda>p. 0),
       CallPayload_BaseGasCount = (\<lambda>p. 60),
       BinaryPayload_Execute = (\<lambda>p b tx. (b, 0, [], None)),
       CallPayload_Execute = (\<lambda>p b tx. (b, 0, [], None)) \<rparr>"

definition ex_nvm :: NVM where
  "ex_nvm =
     \<lparr> CreateEngine = (\<lambda>b tx owner contract. None),
       SetEngineExecutionLimits = (\<lambda>lim. None),
       DeployAndInitEngine = (\<lambda>b tx lim src ty args. (b, [], None)),
       ExecutionInstructions = (\<lambda>b tx lim src ty args. Inr 100) \<rparr>"

definition ex_crypto :: Crypto where
  "ex_crypto =
     \<lparr> Sha3256 = (\<lambda>parts. [7]),
       proto_Marshal = (\<lambda>d. Inr (Payload d)),
       NewSignature = Inr,
       RecoverPublic = (\<lambda>alg h sg. Inr sg),
       Encoded = Inr,
       NewAddressFromPublicKey = (\<lambda>pub. Inr \<lparr> address = pub \<rparr>),
       NewContractAddressFromHash = (\<lambda>h. Inr \<lparr> address = h \<rparr>) \<rparr>"

definition ex_codec :: Codec where
  "ex_codec =
     \<lparr> Hash_String = (\<lambda>h. []),
       Error_text = (\<lambda>e. ''failed''),
       json_Marshal = (\<lambda>e. GasUsed e @ '' '' @ Error e) \<rparr>"

definition ex_deps :: Deps where
  "ex_deps = \<lparr> payloads = ex_payloads, nvm = ex_nvm, crypto = ex_crypto, codec = ex_codec \<rparr>"

text \<open>
  The transaction of the spec's first scenario: value 100, gas price 1,000,000, gas limit
  21,000, a binary payload without data.
\<close>

definition ex_tx :: Transaction where
  "ex_tx =
     \<lparr> tx_hash = [7], tx_from = ex_sender, tx_to = ex_recipient, tx_value = 100,
       tx_nonce = 1, tx_timestamp = 0, tx_data = \<lparr> Type = ''binary'', Payload = [] \<rparr>,
       tx_chainID = 1, tx_gasPrice = 1000000, tx_gasLimit = 21000, tx_alg = 1, tx_sign = [1] \<rparr>"

text \<open>The same transaction with a payload type that no decoder accepts.\<close>

definition ex_tx_unknown :: Transaction where
  "ex_tx_unknown = ex_tx\<lparr> tx_data := \<lparr> Type = ''unknown'', Payload = [] \<rparr> \<rparr>"

text \<open>
  A deploy transaction whose payload is the two bytes of \<open>{}\<close>, sent to another address
  than the sender's, and the same sent to the sender's own address.
\<close>

definition ex_tx_deploy :: Transaction where
  "ex_tx_deploy = ex_tx\<lparr> tx_data := \<lparr> Type = ''deploy'', Payload = [123, 125] \<rparr> \<rparr>"

definition ex_tx_deploy_self :: Transaction where
  "ex_tx_deploy_self = ex_tx_deploy\<lparr> tx_to := ex_sender, tx_value := 0 \<rparr>"

text \<open>A call transaction whose gas limit covers the base gas but not the payload's 60.\<close>

definition ex_tx_call :: Transaction where
  "ex_tx_call = ex_tx\<lparr> tx_data := \<lparr> Type = ''call'', Payload = [] \<rparr>, tx_gasLimit := 20030 \<rparr>"

text \<open>
  Blocks: one where the sender owns 30,000,000,000 and nobody else has an account, one
  with no account at all, and one where the coinbase already owns \<open>2^128 - 1\<close>.
\<close>

definition ex_block :: Block where
  "ex_block =
     \<lparr> accState = [[1] \<mapsto> \<lparr> balance = 30000000000, nonce = 0, birthPlace = None \<rparr>],
       events = [], coinbase = ex_coinbase \<rparr>"

definition ex_block_empty :: Block where
  "ex_block_empty = \<lparr> accState = Map.empty, events = [], coinbase = ex_coinbase \<rparr>"

definition ex_block_full :: Block where
  "ex_block_full =
     \<lparr> accState =
         [[1] \<mapsto> \<lparr> balance = 30000000000, nonce = 0, birthPlace = None \<rparr>,
          [3] \<mapsto> \<lparr> balance = 340282366920938463463374607431768211455, nonce = 0,
                   birthPlace = None \<rparr>],
       events = [], coinbase = ex_coinbase \<rparr>"

section \<open>Helper lemmas\<close>

lemmas ex_defs = ex_sender_def ex_recipient_def ex_coinbase_def ex_payloads_def ex_nvm_def
  ex_crypto_def ex_codec_def ex_deps_def ex_tx_def ex_tx_unknown_def ex_tx_deploy_def
  ex_tx_deploy_self_def ex_tx_call_def ex_block_def ex_block_empty_def ex_block_full_def

lemmas model_defs = NewUint128_def Uint128_Add_def Uint128_Sub_def Uint128_Mul_def Uint128_Cmp_def
  NewUint128FromInt_def MinGasCountPerTransaction_def GasCountPerByte_def DataLen_def
  GasCountOfTxBase_def MinBalanceRequired_def GetOrCreateUserAccount_def CreateContractAccount_def
  Balance_def SubBalance_def AddBalance_def Clone_def Merge_def recordEvent_def
  TxPayloadBinaryType_def TxPayloadDeployType_def TxPayloadCallType_def
  LoadDeployPayload_def LoadPayload_def DeployPayload_BaseGasCount_def BaseGasCount_def
  PayloadGasLimit_def GenerateContractAddress_def Address_Equals_def
  transfer_def recordResultEvent_def Uint128_String_def

lemma Uint128_Cmp_less: "(Uint128_Cmp a b < 0) = (unat a < unat b)"
  by (simp add: Uint128_Cmp_def)

lemma Uint128_Sub_Inr:
  "unat v \<le> unat x \<Longrightarrow> Uint128_Sub x v = Inr (x - v) \<and> unat (x - v) = unat x - unat v"
  by (simp add: Uint128_Sub_def unat_sub word_le_nat_alt)

lemma GetOrCreateUserAccount_cases:
  "\<exists>st1. GetOrCreateUserAccount st a = (st1, Inr a) \<and>
     (\<forall>x. Balance st1 x = Balance st x) \<and>
     (\<forall>x. x \<noteq> a \<longrightarrow> st1 x = st x) \<and>
     st1 a = (case st a of None \<Rightarrow> Some \<lparr> balance = 0, nonce = 0, birthPlace = None \<rparr>
                        | Some acc \<Rightarrow> Some acc) \<and>
     (st a \<noteq> None \<longrightarrow> st1 = st)"
  by (cases "st a") (simp_all add: GetOrCreateUserAccount_def Balance_def NewUint128_def)

text \<open>Looking the sender up first does not change what a transfer from the sender does.\<close>

lemma transfer_after_lookup:
  "GetOrCreateUserAccount (accState b) (address f) = (st1, r) \<Longrightarrow>
   transfer (b\<lparr> accState := st1 \<rparr>) f t v = transfer b f t v"
  by (cases "accState b (address f)")
     (auto simp: transfer_def GetOrCreateUserAccount_def split: option.splits prod.splits)

declare decimal.simps [simp del]

lemma Uint128_Mul_Inr:
  "unat a * unat b < 2 ^ 128 \<Longrightarrow>
   Uint128_Mul a b = Inr (a * b) \<and> unat (a * b) = unat a * unat b"
  using unat_mult_lem [of a b] by (simp add: Uint128_Mul_def)

lemma Uint128_Add_Inr:
  "unat a + unat b < 2 ^ 128 \<Longrightarrow>
   Uint128_Add a b = Inr (a + b) \<and> unat (a + b) = unat a + unat b"
  using unat_add_lem [of a b] by (simp add: Uint128_Add_def)

text \<open>A transfer that the sender can cover and the recipient can hold succeeds.\<close>

lemma transfer_self:
  assumes "unat v \<le> unat (Balance (accState b) (address f))" and "address t = address f"
  shows "\<exists>b'. transfer b f t v = (b', None) \<and> events b' = events b \<and> coinbase b' = coinbase b \<and>
           (\<forall>a. Balance (accState b') a = Balance (accState b) a) \<and>
           (\<forall>a. a \<noteq> address f \<longrightarrow> accState b' a = accState b a) \<and>
           (\<forall>a acc'. accState b' a = Some acc' \<longrightarrow>
              birthPlace acc' = (case accState b a of None \<Rightarrow> None | Some acc \<Rightarrow> birthPlace acc))"
proof -
  have le: "v \<le> Balance (accState b) (address f)"
    using assms(1) by (simp add: word_le_nat_alt)
  show ?thesis
  proof (cases "accState b (address f)")
    case None
    with assms(1) have "v = 0"
      by (simp add: Balance_def NewUint128_def unat_eq_zero)
    with assms None show ?thesis
      by (auto simp: transfer_def GetOrCreateUserAccount_def SubBalance_def AddBalance_def
            Balance_def NewUint128_def Uint128_Sub_def Uint128_Add_def)
  next
    case (Some acc)
    have fit: "unat (balance acc - v) + unat v < 2 ^ 128"
      using assms(1) Some unsigned_less [of "balance acc", where 'a = nat]
      by (simp add: Balance_def unat_sub word_le_nat_alt)
    with assms Some show ?thesis
      by (auto simp: transfer_def GetOrCreateUserAccount_def SubBalance_def AddBalance_def
            Balance_def NewUint128_def Uint128_Sub_def Uint128_Add_def)
  qed
qed

lemma transfer_other:
  assumes "unat v \<le> unat (Balance (accState b) (address f))" and "address t \<noteq> address f"
    and "unat (Balance (accState b) (address t)) + unat v < 2 ^ 128"
  shows "\<exists>b'. transfer b f t v = (b', None) \<and> events b' = events b \<and> coinbase b' = coinbase b \<and>
           unat (Balance (accState b') (address f)) + unat v = unat (Balance (accState b) (address f)) \<and>
           unat (Balance (accState b') (address t)) = unat (Balance (accState b) (address t)) + unat v \<and>
           (\<forall>a. a \<noteq> address f \<longrightarrow> a \<noteq> address t \<longrightarrow> accState b' a = accState b a) \<and>
           (\<forall>a acc'. accState b' a = Some acc' \<longrightarrow>
              birthPlace acc' = (case accState b a of None \<Rightarrow> None | Some acc \<Rightarrow> birthPlace acc))"
proof -
  let ?x = "Balance (accState b) (address f)" and ?y = "Balance (accState b) (address t)"
  have s: "Uint128_Sub ?x v = Inr (?x - v)" and us: "unat (?x - v) = unat ?x - unat v"
    using Uint128_Sub_Inr [OF assms(1)] by simp_all
  have a: "Uint128_Add ?y v = Inr (?y + v)" and ua: "unat (?y + v) = unat ?y + unat v"
    using Uint128_Add_Inr [OF assms(3)] by simp_all
  show ?thesis
    using assms(1,2) s us a ua
    by (cases "accState b (address f)"; cases "accState b (address t)")
       (auto simp: transfer_def GetOrCreateUserAccount_def SubBalance_def AddBalance_def
          Balance_def NewUint128_def)
qed

text \<open>What a successful admission says about the fee.\<close>

lemma MinBalanceRequired_InrD:
  assumes "MinBalanceRequired tx = Inr m"
  shows "unat m = unat (tx_gasPrice tx) * unat (tx_gasLimit tx) + unat (tx_value tx)"
proof -
  let ?p = "tx_gasPrice tx" and ?l = "tx_gasLimit tx" and ?v = "tx_value tx"
  from assms have hm: "unat ?p * unat ?l < 2 ^ 128"
    by (simp add: MinBalanceRequired_def Uint128_Mul_def split: if_splits)
  then have um: "unat (?p * ?l) = unat ?p * unat ?l"
    using Uint128_Mul_Inr [OF hm] by simp
  from assms hm have ha: "unat (?p * ?l) + unat ?v < 2 ^ 128" and m: "m = ?p * ?l + ?v"
    by (simp_all add: MinBalanceRequired_def Uint128_Mul_def Uint128_Add_def split: if_splits)
  show ?thesis
    using Uint128_Add_Inr [OF ha] um m by simp
qed

lemma fee_within_limit:
  assumes "MinBalanceRequired tx = Inr m" and "unat n \<le> unat (tx_gasLimit tx)"
  shows "Uint128_Mul (tx_gasPrice tx) n = Inr (tx_gasPrice tx * n) \<and>
         unat (tx_gasPrice tx * n) = unat (tx_gasPrice tx) * unat n \<and>
         unat (tx_gasPrice tx * n) \<le> unat m"
proof -
  have le: "unat (tx_gasPrice tx) * unat n \<le> unat (tx_gasPrice tx) * unat (tx_gasLimit tx)"
    by (rule mult_le_mono2) (rule assms(2))
  have "unat m < 2 ^ 128"
    using unsigned_less [of m, where 'a = nat] by simp
  with le MinBalanceRequired_InrD [OF assms(1)]
  have lt: "unat (tx_gasPrice tx) * unat n < 2 ^ 128" by linarith
  have mul: "Uint128_Mul (tx_gasPrice tx) n = Inr (tx_gasPrice tx * n)"
    and um: "unat (tx_gasPrice tx * n) = unat (tx_gasPrice tx) * unat n"
    using Uint128_Mul_Inr [OF lt] by simp_all
  have "unat (tx_gasPrice tx * n) \<le> unat m"
    using um le MinBalanceRequired_InrD [OF assms(1)] by linarith
  with mul um show ?thesis by blast
qed

lemma recordResultEvent_eq:
  "recordResultEvent deps tx b n e =
     (b\<lparr> events := events b @
          [(tx_hash tx,
            \<lparr> Topic = TopicTransactionExecutionResult,
              EventData = json_Marshal (codec deps)
                \<lparr> Hash = Hash_String (codec deps) (tx_hash tx),
                  Status = (case e of None \<Rightarrow> TxExecutionSuccess | Some x \<Rightarrow> TxExecutionFailed),
                  GasUsed = Uint128_String n,
                  Error = (case e of None \<Rightarrow> [] | Some x \<Rightarrow> Error_text (codec deps) x) \<rparr> \<rparr>)] \<rparr>,
      None)"
  by (simp add: recordResultEvent_def recordEvent_def Let_def split: option.splits)

text \<open>The fee transfer to the coinbase of the block.\<close>

lemma charge_fee:
  assumes cover: "unat gas \<le> unat (Balance (accState b) (address f))"
    and fit: "address (coinbase b) \<noteq> address f \<longrightarrow>
              unat (Balance (accState b) (address (coinbase b))) + unat gas < 2 ^ 128"
  shows "\<exists>b2. transfer b f (coinbase b) gas = (b2, None) \<and>
           events b2 = events b \<and> coinbase b2 = coinbase b \<and>
           (address (coinbase b) = address f \<longrightarrow>
              (\<forall>a. Balance (accState b2) a = Balance (accState b) a)) \<and>
           (address (coinbase b) \<noteq> address f \<longrightarrow>
              unat (Balance (accState b2) (address f)) + unat gas
                = unat (Balance (accState b) (address f)) \<and>
              unat (Balance (accState b2) (address (coinbase b)))
                = unat (Balance (accState b) (address (coinbase b))) + unat gas) \<and>
           (\<forall>a. a \<noteq> address f \<longrightarrow> a \<noteq> address (coinbase b) \<longrightarrow> accState b2 a = accState b a) \<and>
           (\<forall>a acc'. accState b2 a = Some acc' \<longrightarrow>
              birthPlace acc' = (case accState b a of None \<Rightarrow> None | Some acc \<Rightarrow> birthPlace acc))"
proof (cases "address (coinbase b) = address f")
  case True
  from transfer_self [OF cover True] True show ?thesis by auto
next
  case False
  with fit have "unat (Balance (accState b) (address (coinbase b))) + unat gas < 2 ^ 128"
    by simp
  from transfer_other [OF cover False this] False show ?thesis by auto
qed

text \<open>
  The last steps of \<open>VerifyExecution\<close>, once the payload has run: the fee is settled on the
  merged child when the error after the clamp is nil and on the block itself otherwise.
\<close>

lemma VerifyExecution_settlement:
  assumes base: "GasCountOfTxBase tx = Inr g" "unat g \<le> unat (tx_gasLimit tx)"
    and bal: "MinBalanceRequired tx = Inr m"
      "unat m \<le> unat (Balance (accState b) (address (tx_from tx)))"
    and load: "LoadPayload deps tx = Inr payload"
    and pgas: "Uint128_Add g (BaseGasCount deps payload) = Inr g1" "unat g1 \<le> unat (tx_gasLimit tx)"
    and val: "transfer b (tx_from tx) (tx_to tx) (tx_value tx) = (child1, None)"
    and exec: "Execute deps payload child1 tx = (child2, gasExecution, result, exeErr)"
    and total: "Uint128_Add g1 gasExecution = Inr g2"
    and clamp: "gasUsed = (if unat (tx_gasLimit tx) < unat g2 then tx_gasLimit tx else g2)"
      "err = (if unat (tx_gasLimit tx) < unat g2 then Some ErrOutOfGasLimit else exeErr)"
    and mul: "Uint128_Mul (tx_gasPrice tx) gasUsed = Inr fee"
  shows "VerifyExecution deps tx (Some b) =
           (case transfer (if err = None then Merge b child2 else b)
                   (tx_from tx) (coinbase b) fee of
              (b3, Some e) \<Rightarrow> (Some b3, None, Some e)
            | (b3, None) \<Rightarrow>
                (Some (fst (recordResultEvent deps tx b3 fee err)), Some gasUsed, None))"
proof -
  let ?f = "address (tx_from tx)"
  obtain st1 r where g1: "GetOrCreateUserAccount (accState b) ?f = (st1, r)"
    by (cases "GetOrCreateUserAccount (accState b) ?f")
  have r: "r = Inr ?f" and bal1: "Balance st1 ?f = Balance (accState b) ?f"
    using g1 by (auto simp: GetOrCreateUserAccount_def Balance_def NewUint128_def split: option.splits)
  have child: "transfer (b\<lparr> accState := st1 \<rparr>) (tx_from tx) (tx_to tx) (tx_value tx) = (child1, None)"
    using transfer_after_lookup [OF g1] val by simp
  have outer: "transfer (b\<lparr> accState := st1 \<rparr>) (tx_from tx) (coinbase b) fee
                 = transfer b (tx_from tx) (coinbase b) fee"
    by (rule transfer_after_lookup [OF g1])
  have merge: "Merge (b\<lparr> accState := st1 \<rparr>) child2 = Merge b child2"
    and cb: "coinbase (Merge b child2) = coinbase b"
    by (simp_all add: Merge_def)
  obtain b3 e3 where t: "transfer b (tx_from tx) (coinbase b) fee = (b3, e3)"
    by (cases "transfer b (tx_from tx) (coinbase b) fee")
  obtain b4 e4 where tm: "transfer (Merge b child2) (tx_from tx) (coinbase b) fee = (b4, e4)"
    by (cases "transfer (Merge b child2) (tx_from tx) (coinbase b) fee")
  show ?thesis
  proof (cases "unat (tx_gasLimit tx) < unat g2")
    case True
    then have gu: "gasUsed = tx_gasLimit tx" and er: "err = Some ErrOutOfGasLimit"
      using clamp by simp_all
    show ?thesis
      using base bal load pgas g1 r bal1 child exec total True mul [unfolded gu] outer t
      unfolding gu er
      by (cases e3)
         (simp_all add: VerifyExecution_def Uint128_Cmp_less Clone_def Let_def recordResultEvent_eq
            not_less [symmetric])
  next
    case False
    then have gu: "gasUsed = g2" and er: "err = exeErr"
      using clamp by simp_all
    show ?thesis
    proof (cases exeErr)
      case None
      show ?thesis
        using base bal load pgas g1 r bal1 child exec total False None mul [unfolded gu] merge cb tm
        unfolding gu er
        by (cases e4)
           (simp_all add: VerifyExecution_def Uint128_Cmp_less Clone_def Let_def recordResultEvent_eq
              not_less [symmetric])
    next
      case (Some e)
      show ?thesis
        using base bal load pgas g1 r bal1 child exec total False Some mul [unfolded gu] outer t
        unfolding gu er
        by (cases e3)
           (simp_all add: VerifyExecution_def Uint128_Cmp_less Clone_def Let_def recordResultEvent_eq
              not_less [symmetric])
    qed
  qed
qed

section \<open>Gas accounting and construction\<close>

text \<open>
  C7. When \<open>gas_price * gas_limit + value\<close> fits in 128 bits, \<open>MinBalanceRequired\<close> returns
  exactly that number. When the product does not fit, or the product fits and the sum
  does not, it returns the overflow error and no wrapped value.
\<close>

theorem MinBalanceRequired_exact_or_overflow:
  "(unat (tx_gasPrice tx) * unat (tx_gasLimit tx) + unat (tx_value tx) < 2 ^ 128 \<longrightarrow>
      (\<exists>w. MinBalanceRequired tx = Inr w \<and>
           unat w = unat (tx_gasPrice tx) * unat (tx_gasLimit tx) + unat (tx_value tx))) \<and>
   (2 ^ 128 \<le> unat (tx_gasPrice tx) * unat (tx_gasLimit tx) \<longrightarrow>
      MinBalanceRequired tx = Inl ErrUint128Overflow) \<and>
   (unat (tx_gasPrice tx) * unat (tx_gasLimit tx) < 2 ^ 128 \<and>
    2 ^ 128 \<le> unat (tx_gasPrice tx) * unat (tx_gasLimit tx) + unat (tx_value tx) \<longrightarrow>
      MinBalanceRequired tx = Inl ErrUint128Overflow)"
proof (intro conjI impI)
  let ?p = "tx_gasPrice tx" and ?l = "tx_gasLimit tx" and ?v = "tx_value tx"
  assume h: "unat ?p * unat ?l + unat ?v < 2 ^ 128"
  then have hm: "unat ?p * unat ?l < 2 ^ 128" by simp
  have m: "Uint128_Mul ?p ?l = Inr (?p * ?l)" and um: "unat (?p * ?l) = unat ?p * unat ?l"
    using Uint128_Mul_Inr [OF hm] by simp_all
  have a: "Uint128_Add (?p * ?l) ?v = Inr (?p * ?l + ?v)"
    and ua: "unat (?p * ?l + ?v) = unat ?p * unat ?l + unat ?v"
    using Uint128_Add_Inr [of "?p * ?l" ?v] h um by simp_all
  show "\<exists>w. MinBalanceRequired tx = Inr w \<and> unat w = unat ?p * unat ?l + unat ?v"
    using m a ua by (simp add: MinBalanceRequired_def)
next
  assume "2 ^ 128 \<le> unat (tx_gasPrice tx) * unat (tx_gasLimit tx)"
  then show "MinBalanceRequired tx = Inl ErrUint128Overflow"
    by (simp add: MinBalanceRequired_def Uint128_Mul_def)
next
  let ?p = "tx_gasPrice tx" and ?l = "tx_gasLimit tx" and ?v = "tx_value tx"
  assume h: "unat ?p * unat ?l < 2 ^ 128 \<and> 2 ^ 128 \<le> unat ?p * unat ?l + unat ?v"
  then have um: "unat (?p * ?l) = unat ?p * unat ?l"
    using Uint128_Mul_Inr [of ?p ?l] by simp
  show "MinBalanceRequired tx = Inl ErrUint128Overflow"
    using h um by (simp add: MinBalanceRequired_def Uint128_Mul_def Uint128_Add_def)
qed

text \<open>
  The theorem at three transactions: the scenario transaction (21,000 * 1,000,000 + 100),
  one whose product overflows (gas price and gas limit both \<open>2^64\<close>), and one whose sum
  overflows (product \<open>2^127\<close>, value \<open>2^127\<close>).
\<close>

theorem MinBalanceRequired_exact_or_overflow_witness:
  "(\<exists>w. MinBalanceRequired ex_tx = Inr w \<and> unat w = 21000000100) \<and>
   MinBalanceRequired (ex_tx\<lparr> tx_gasPrice := 2 ^ 64, tx_gasLimit := 2 ^ 64 \<rparr>)
     = Inl ErrUint128Overflow \<and>
   MinBalanceRequired (ex_tx\<lparr> tx_gasPrice := 2 ^ 64, tx_gasLimit := 2 ^ 63, tx_value := 2 ^ 127 \<rparr>)
     = Inl ErrUint128Overflow"
  using MinBalanceRequired_exact_or_overflow [of ex_tx]
    MinBalanceRequired_exact_or_overflow [of "ex_tx\<lparr> tx_gasPrice := 2 ^ 64, tx_gasLimit := 2 ^ 64 \<rparr>"]
    MinBalanceRequired_exact_or_overflow
      [of "ex_tx\<lparr> tx_gasPrice := 2 ^ 64, tx_gasLimit := 2 ^ 63, tx_value := 2 ^ 127 \<rparr>"]
  by (simp add: ex_tx_def)

text \<open>
  C9. The base gas count of a deploy payload is zero whatever the payload holds, so adding
  it to a running gas count in the payload-gas check succeeds and leaves the count as it
  was.
\<close>

theorem DeployPayload_BaseGasCount_zero:
  "DeployPayload_BaseGasCount p = 0 \<and>
   BaseGasCount deps (Deploy p) = 0 \<and>
   Uint128_Add gasUsed (BaseGasCount deps (Deploy p)) = Inr gasUsed"
proof -
  have "unat gasUsed < 2 ^ 128"
    using unsigned_less [of gasUsed, where 'a = nat] by simp
  then show ?thesis
    by (simp add: DeployPayload_BaseGasCount_def BaseGasCount_def NewUint128_def Uint128_Add_def)
qed

text \<open>
  C10. A transaction built by \<open>NewTransaction\<close> has a gas price and a gas limit above zero:
  a gas limit that is nil or not positive is replaced by 20,000, a gas price that is nil
  or not positive by 1,000,000, and a positive one is kept.
\<close>

theorem NewTransaction_gas_positive:
  assumes "NewTransaction now chainID from to val nonce0 payloadType payload gasPrice gasLimit
             = Inr tx"
  shows "0 < unat (tx_gasPrice tx) \<and> 0 < unat (tx_gasLimit tx) \<and>
         tx_gasLimit tx =
           (case gasLimit of
              None \<Rightarrow> 20000
            | Some l \<Rightarrow> if Uint128_Cmp l NewUint128 \<le> 0 then 20000 else l) \<and>
         tx_gasPrice tx =
           (case gasPrice of
              None \<Rightarrow> 1000000
            | Some p \<Rightarrow> if Uint128_Cmp p NewUint128 \<le> 0 then 1000000 else p)"
proof -
  have pos: "\<And>w :: uint128. \<not> Uint128_Cmp w NewUint128 \<le> 0 \<Longrightarrow> 0 < unat w"
    by (simp add: Uint128_Cmp_def NewUint128_def split: if_splits)
  from assms show ?thesis
    by (auto simp: NewTransaction_def Let_def TransactionGasPrice_def
          MinGasCountPerTransaction_def dest: pos
          split: option.splits if_splits)
qed

theorem NewTransaction_gas_positive_witness:
  "NewTransaction 0 1 (Some ex_sender) (Some ex_recipient) (Some 100) 1 ''binary'' [] (Some 0) None
     = Inr (ex_tx\<lparr> tx_hash := [], tx_alg := 0, tx_sign := [], tx_gasLimit := 20000 \<rparr>) \<and>
   tx_gasLimit (ex_tx\<lparr> tx_hash := [], tx_alg := 0, tx_sign := [], tx_gasLimit := 20000 \<rparr>) = 20000 \<and>
   tx_gasPrice (ex_tx\<lparr> tx_hash := [], tx_alg := 0, tx_sign := [], tx_gasLimit := 20000 \<rparr>) = 1000000"
proof -
  have h: "NewTransaction 0 1 (Some ex_sender) (Some ex_recipient) (Some 100) 1 ''binary'' []
             (Some 0) None
           = Inr (ex_tx\<lparr> tx_hash := [], tx_alg := 0, tx_sign := [], tx_gasLimit := 20000 \<rparr>)"
    by (simp add: NewTransaction_def ex_tx_def Uint128_Cmp_def NewUint128_def
          TransactionGasPrice_def MinGasCountPerTransaction_def MaxDataPayLoadLength_def)
  show ?thesis
    using h NewTransaction_gas_positive [OF h]
    by (simp add: Uint128_Cmp_def NewUint128_def)
qed

section \<open>Admission checks\<close>

text \<open>
  C1, as the code has it. A rejection at the base-gas check returns \<open>OutOfGasLimit\<close> and
  leaves the block as it was. A rejection at the balance check returns
  \<open>InsufficientBalance\<close>, transfers no fee, records no event and changes no account that
  exists; the block is unchanged when the sender has an account, and when the sender has
  none the lookup before the check has created an empty one for it.
\<close>

theorem VerifyExecution_admission_rejections:
  "(GasCountOfTxBase tx = Inr g \<and> unat (tx_gasLimit tx) < unat g \<longrightarrow>
      VerifyExecution deps tx (Some b) = (Some b, None, Some ErrOutOfGasLimit)) \<and>
   (GasCountOfTxBase tx = Inr g \<and> \<not> unat (tx_gasLimit tx) < unat g \<and>
    MinBalanceRequired tx = Inr m \<and>
    unat (Balance (accState b) (address (tx_from tx))) < unat m \<longrightarrow>
      (\<exists>b'. VerifyExecution deps tx (Some b) = (Some b', None, Some ErrInsufficientBalance) \<and>
            events b' = events b \<and> coinbase b' = coinbase b \<and>
            (\<forall>a. a \<noteq> address (tx_from tx) \<longrightarrow> accState b' a = accState b a) \<and>
            accState b' (address (tx_from tx)) =
              (case accState b (address (tx_from tx)) of
                 None \<Rightarrow> Some \<lparr> balance = 0, nonce = 0, birthPlace = None \<rparr>
               | Some acc \<Rightarrow> Some acc) \<and>
            (accState b (address (tx_from tx)) \<noteq> None \<longrightarrow> b' = b)))"
proof (intro conjI impI)
  assume "GasCountOfTxBase tx = Inr g \<and> unat (tx_gasLimit tx) < unat g"
  then show "VerifyExecution deps tx (Some b) = (Some b, None, Some ErrOutOfGasLimit)"
    by (simp add: VerifyExecution_def Uint128_Cmp_less)
next
  assume h: "GasCountOfTxBase tx = Inr g \<and> \<not> unat (tx_gasLimit tx) < unat g \<and>
    MinBalanceRequired tx = Inr m \<and>
    unat (Balance (accState b) (address (tx_from tx))) < unat m"
  let ?f = "address (tx_from tx)"
  obtain st1 where g: "GetOrCreateUserAccount (accState b) ?f = (st1, Inr ?f)"
    and bal: "\<And>x. Balance st1 x = Balance (accState b) x"
    and oth: "\<And>x. x \<noteq> ?f \<Longrightarrow> st1 x = accState b x"
    and own: "st1 ?f = (case accState b ?f of
                          None \<Rightarrow> Some \<lparr> balance = 0, nonce = 0, birthPlace = None \<rparr>
                        | Some acc \<Rightarrow> Some acc)"
    and same: "accState b ?f \<noteq> None \<Longrightarrow> st1 = accState b"
    using GetOrCreateUserAccount_cases [of "accState b" ?f] by blast
  have run: "VerifyExecution deps tx (Some b) =
               (Some (b\<lparr> accState := st1 \<rparr>), None, Some ErrInsufficientBalance)"
    using h by (simp add: VerifyExecution_def Uint128_Cmp_less g bal)
  show "\<exists>b'. VerifyExecution deps tx (Some b) = (Some b', None, Some ErrInsufficientBalance) \<and>
            events b' = events b \<and> coinbase b' = coinbase b \<and>
            (\<forall>a. a \<noteq> ?f \<longrightarrow> accState b' a = accState b a) \<and>
            accState b' ?f =
              (case accState b ?f of
                 None \<Rightarrow> Some \<lparr> balance = 0, nonce = 0, birthPlace = None \<rparr>
               | Some acc \<Rightarrow> Some acc) \<and>
            (accState b ?f \<noteq> None \<longrightarrow> b' = b)"
    unfolding run using oth own same by simp
qed

text \<open>
  The theorem on the block where the sender owns 30,000,000,000: a gas limit of 100 is
  rejected at the base-gas check, a value of 100,000,000,000 at the balance check, and
  the block is the same after both.
\<close>

theorem VerifyExecution_admission_rejections_witness:
  "VerifyExecution ex_deps (ex_tx\<lparr> tx_gasLimit := 100 \<rparr>) (Some ex_block)
     = (Some ex_block, None, Some ErrOutOfGasLimit) \<and>
   VerifyExecution ex_deps (ex_tx\<lparr> tx_value := 100000000000 \<rparr>) (Some ex_block)
     = (Some ex_block, None, Some ErrInsufficientBalance)"
proof -
  have h1: "GasCountOfTxBase (ex_tx\<lparr> tx_gasLimit := 100 \<rparr>) = Inr 20000 \<and>
            unat (tx_gasLimit (ex_tx\<lparr> tx_gasLimit := 100 \<rparr>)) < unat (20000 :: uint128)"
    by (simp add: ex_defs model_defs)
  have h2: "GasCountOfTxBase (ex_tx\<lparr> tx_value := 100000000000 \<rparr>) = Inr 20000 \<and>
            \<not> unat (tx_gasLimit (ex_tx\<lparr> tx_value := 100000000000 \<rparr>)) < unat (20000 :: uint128) \<and>
            MinBalanceRequired (ex_tx\<lparr> tx_value := 100000000000 \<rparr>) = Inr 121000000000 \<and>
            unat (Balance (accState ex_block) (address (tx_from (ex_tx\<lparr> tx_value := 100000000000 \<rparr>))))
              < unat (121000000000 :: uint128)"
    by (simp add: ex_defs model_defs)
  have h3: "accState ex_block (address (tx_from (ex_tx\<lparr> tx_value := 100000000000 \<rparr>))) \<noteq> None"
    by (simp add: ex_defs)
  from VerifyExecution_admission_rejections
         [where tx = "ex_tx\<lparr> tx_gasLimit := 100 \<rparr>" and g = 20000 and deps = ex_deps
            and b = ex_block] h1
  have r1: "VerifyExecution ex_deps (ex_tx\<lparr> tx_gasLimit := 100 \<rparr>) (Some ex_block)
              = (Some ex_block, None, Some ErrOutOfGasLimit)"
    by blast
  from VerifyExecution_admission_rejections
         [where tx = "ex_tx\<lparr> tx_value := 100000000000 \<rparr>" and g = 20000 and deps = ex_deps
            and b = ex_block and m = 121000000000] h2 h3
  have r2: "VerifyExecution ex_deps (ex_tx\<lparr> tx_value := 100000000000 \<rparr>) (Some ex_block)
              = (Some ex_block, None, Some ErrInsufficientBalance)"
    by blast
  from r1 r2 show ?thesis by blast
qed

text \<open>
  C1 as stated fails: on the block without accounts the scenario transaction is rejected at
  the balance check, and the block returned holds a new account for the sender.
\<close>

theorem VerifyExecution_balance_rejection_creates_account:
  "GasCountOfTxBase ex_tx = Inr 20000 \<and>
   \<not> unat (tx_gasLimit ex_tx) < unat (20000 :: uint128) \<and>
   MinBalanceRequired ex_tx = Inr 21000000100 \<and>
   unat (Balance (accState ex_block_empty) (address (tx_from ex_tx))) < unat (21000000100 :: uint128) \<and>
   accState ex_block_empty [1] = None \<and>
   VerifyExecution ex_deps ex_tx (Some ex_block_empty)
     = (Some (ex_block_empty\<lparr> accState := [[1] \<mapsto> \<lparr> balance = 0, nonce = 0, birthPlace = None \<rparr>] \<rparr>),
        None, Some ErrInsufficientBalance) \<and>
   ex_block_empty\<lparr> accState := [[1] \<mapsto> \<lparr> balance = 0, nonce = 0, birthPlace = None \<rparr>] \<rparr>
     \<noteq> ex_block_empty"
proof -
  have ne: "ex_block_empty\<lparr> accState := [[1] \<mapsto> \<lparr> balance = 0, nonce = 0, birthPlace = None \<rparr>] \<rparr>
              \<noteq> ex_block_empty"
  proof
    assume "ex_block_empty\<lparr> accState := [[1] \<mapsto> \<lparr> balance = 0, nonce = 0, birthPlace = None \<rparr>] \<rparr>
              = ex_block_empty"
    then have "accState (ex_block_empty\<lparr> accState := [[1] \<mapsto> \<lparr> balance = 0, nonce = 0, birthPlace = None \<rparr>] \<rparr>) [1]
                 = accState ex_block_empty [1]"
      by simp
    then show False by (simp add: ex_defs)
  qed
  show ?thesis
    using ne by (simp add: VerifyExecution_def ex_defs model_defs)
qed

section \<open>Undecodable payload\<close>




section \<open>Payload-gas check\<close>

text \<open>
  C3, as the code has it. Take a transaction that passes the base-gas and the balance
  check, whose payload decodes, and whose gas limit is below \<open>GasCountOfTxBase\<close> plus the
  payload's base gas count (a sum that fits in 128 bits). It is charged
  \<open>gas_price * gas_limit\<close>, the whole limit, moved from the sender to the coinbase of the
  block; a failure event with the gas limit and the text of \<open>OutOfGasLimit\<close> is appended;
  the call returns \<open>(gas_limit, nil)\<close>; no other account changes and no account becomes a
  contract account, so nothing of a payload execution reaches the block. As for C5 the
  coinbase, when it is not the sender, has to be able to hold the fee.
\<close>

theorem VerifyExecution_payload_gas_check:
  assumes "GasCountOfTxBase tx = Inr g" and "unat g \<le> unat (tx_gasLimit tx)"
    and "MinBalanceRequired tx = Inr m"
    and "unat m \<le> unat (Balance (accState b) (address (tx_from tx)))"
    and "LoadPayload deps tx = Inr payload"
    and "unat g + unat (BaseGasCount deps payload) < 2 ^ 128"
    and "unat (tx_gasLimit tx) < unat g + unat (BaseGasCount deps payload)"
    and "address (coinbase b) \<noteq> address (tx_from tx) \<longrightarrow>
         unat (Balance (accState b) (address (coinbase b)))
           + unat (tx_gasPrice tx) * unat (tx_gasLimit tx) < 2 ^ 128"
  shows "\<exists>b'. VerifyExecution deps tx (Some b) = (Some b', Some (tx_gasLimit tx), None) \<and>
           events b' = events b @
             [(tx_hash tx,
               \<lparr> Topic = TopicTransactionExecutionResult,
                 EventData = json_Marshal (codec deps)
                   \<lparr> Hash = Hash_String (codec deps) (tx_hash tx),
                     Status = TxExecutionFailed,
                     GasUsed = Uint128_String (tx_gasLimit tx),
                     Error = Error_text (codec deps) ErrOutOfGasLimit \<rparr> \<rparr>)] \<and>
           coinbase b' = coinbase b \<and>
           (address (coinbase b) = address (tx_from tx) \<longrightarrow>
              (\<forall>a. Balance (accState b') a = Balance (accState b) a)) \<and>
           (address (coinbase b) \<noteq> address (tx_from tx) \<longrightarrow>
              unat (Balance (accState b') (address (tx_from tx)))
                + unat (tx_gasPrice tx) * unat (tx_gasLimit tx)
                = unat (Balance (accState b) (address (tx_from tx))) \<and>
              unat (Balance (accState b') (address (coinbase b)))
                = unat (Balance (accState b) (address (coinbase b)))
                  + unat (tx_gasPrice tx) * unat (tx_gasLimit tx)) \<and>
           (\<forall>a. a \<noteq> address (tx_from tx) \<longrightarrow> a \<noteq> address (coinbase b) \<longrightarrow>
              accState b' a = accState b a) \<and>
           (\<forall>a acc'. accState b' a = Some acc' \<longrightarrow>
              birthPlace acc' = (case accState b a of None \<Rightarrow> None | Some acc \<Rightarrow> birthPlace acc))"
proof -
  let ?f = "address (tx_from tx)" and ?l = "tx_gasLimit tx"
  let ?fee = "tx_gasPrice tx * tx_gasLimit tx"
  obtain st1 r where g1: "GetOrCreateUserAccount (accState b) ?f = (st1, r)"
    by (cases "GetOrCreateUserAccount (accState b) ?f")
  have r: "r = Inr ?f" and bal: "Balance st1 ?f = Balance (accState b) ?f"
    using g1 by (auto simp: GetOrCreateUserAccount_def Balance_def NewUint128_def split: option.splits)
  have add: "Uint128_Add g (BaseGasCount deps payload) = Inr (g + BaseGasCount deps payload)"
    and ua: "unat (g + BaseGasCount deps payload) = unat g + unat (BaseGasCount deps payload)"
    using Uint128_Add_Inr [OF assms(6)] by simp_all
  have over: "unat ?l < unat (g + BaseGasCount deps payload)"
    using assms(7) ua by simp
  have mul: "Uint128_Mul (tx_gasPrice tx) ?l = Inr ?fee"
    and ug: "unat ?fee = unat (tx_gasPrice tx) * unat ?l"
    and le: "unat ?fee \<le> unat m"
    using fee_within_limit [OF assms(3) le_refl] by simp_all
  have cover: "unat ?fee \<le> unat (Balance (accState b) ?f)"
    using le assms(4) by simp
  have fit: "address (coinbase b) \<noteq> ?f \<longrightarrow>
             unat (Balance (accState b) (address (coinbase b))) + unat ?fee < 2 ^ 128"
    using assms(8) ug by simp
  from charge_fee [OF cover fit] obtain b2 where
    t: "transfer b (tx_from tx) (coinbase b) ?fee = (b2, None)"
    and props: "events b2 = events b" "coinbase b2 = coinbase b"
      "address (coinbase b) = ?f \<longrightarrow> (\<forall>a. Balance (accState b2) a = Balance (accState b) a)"
      "address (coinbase b) \<noteq> ?f \<longrightarrow>
         unat (Balance (accState b2) ?f) + unat ?fee = unat (Balance (accState b) ?f) \<and>
         unat (Balance (accState b2) (address (coinbase b)))
           = unat (Balance (accState b) (address (coinbase b))) + unat ?fee"
      "\<forall>a. a \<noteq> ?f \<longrightarrow> a \<noteq> address (coinbase b) \<longrightarrow> accState b2 a = accState b a"
      "\<forall>a acc'. accState b2 a = Some acc' \<longrightarrow>
         birthPlace acc' = (case accState b a of None \<Rightarrow> None | Some acc \<Rightarrow> birthPlace acc)"
    by blast
  have t1: "transfer (b\<lparr> accState := st1 \<rparr>) (tx_from tx) (coinbase b) ?fee = (b2, None)"
    using transfer_after_lookup [OF g1] t by simp
  have run: "VerifyExecution deps tx (Some b) =
               (Some (fst (recordResultEvent deps tx b2 ?l (Some ErrOutOfGasLimit))), Some ?l, None)"
    using assms(1,2,3,4,5) g1 r bal add over mul t1
    by (simp add: VerifyExecution_def Uint128_Cmp_less recordResultEvent_eq not_less [symmetric])
  show ?thesis
    unfolding run using props ug by (simp add: recordResultEvent_eq)
qed

text \<open>
  The theorem on the call transaction with gas limit 20,030 (base gas 20,000, payload
  base 60): 20,030 gas, a fee of 20,030,000,000, one failure event, and the recipient
  still without an account.
\<close>

theorem VerifyExecution_payload_gas_check_witness:
  "\<exists>b'. VerifyExecution ex_deps ex_tx_call (Some ex_block) = (Some b', Some 20030, None) \<and>
     events b' = [([7], \<lparr> Topic = TopicTransactionExecutionResult, EventData = ''20030 failed'' \<rparr>)] \<and>
     unat (Balance (accState b') [1]) + 20030000000 = 30000000000 \<and>
     unat (Balance (accState b') [3]) = 20030000000 \<and>
     accState b' [2] = None"
proof -
  have h: "GasCountOfTxBase ex_tx_call = Inr 20000"
    "unat (20000 :: uint128) \<le> unat (tx_gasLimit ex_tx_call)"
    "MinBalanceRequired ex_tx_call = Inr 20030000100"
    "unat (20030000100 :: uint128) \<le> unat (Balance (accState ex_block) (address (tx_from ex_tx_call)))"
    "LoadPayload ex_deps ex_tx_call = Inr (Call \<lparr> Function = ''f'', CallArgs = [] \<rparr>)"
    "unat (20000 :: uint128) + unat (BaseGasCount ex_deps (Call \<lparr> Function = ''f'', CallArgs = [] \<rparr>))
       < 2 ^ 128"
    "unat (tx_gasLimit ex_tx_call)
       < unat (20000 :: uint128) + unat (BaseGasCount ex_deps (Call \<lparr> Function = ''f'', CallArgs = [] \<rparr>))"
    "address (coinbase ex_block) \<noteq> address (tx_from ex_tx_call) \<longrightarrow>
       unat (Balance (accState ex_block) (address (coinbase ex_block)))
         + unat (tx_gasPrice ex_tx_call) * unat (tx_gasLimit ex_tx_call) < 2 ^ 128"
    by (simp_all add: ex_defs model_defs)
  from VerifyExecution_payload_gas_check [OF h]
  show ?thesis
    by (auto simp: ex_defs model_defs decimal.simps)
qed

text \<open>
  C3 as stated fails: a deploy transaction whose payload decodes and whose gas limit
  20,001 is below its \<open>GasCountOfTxBase\<close> of 20,002 is rejected at the base-gas check, with
  the error returned, no fee and no event.
\<close>

theorem VerifyExecution_base_gas_check_comes_first:
  "LoadPayload ex_deps (ex_tx_deploy\<lparr> tx_gasLimit := 20001 \<rparr>)
     = Inr (Deploy \<lparr> SourceType = [], Source = [], Args = [] \<rparr>) \<and>
   GasCountOfTxBase (ex_tx_deploy\<lparr> tx_gasLimit := 20001 \<rparr>) = Inr 20002 \<and>
   unat (tx_gasLimit (ex_tx_deploy\<lparr> tx_gasLimit := 20001 \<rparr>))
     < unat (20002 :: uint128)
       + unat (BaseGasCount ex_deps (Deploy \<lparr> SourceType = [], Source = [], Args = [] \<rparr>)) \<and>
   VerifyExecution ex_deps (ex_tx_deploy\<lparr> tx_gasLimit := 20001 \<rparr>) (Some ex_block)
     = (Some ex_block, None, Some ErrOutOfGasLimit)"
  by (simp add: VerifyExecution_def ex_defs model_defs)

section \<open>Execution, merge and fee settlement\<close>

text \<open>
  C4. Take a transaction that reaches payload execution: it passes the base-gas, balance
  and payload-gas checks, the value transfer on the clone succeeds (\<open>child1\<close>), the payload
  returns \<open>(gasExecution, exeErr)\<close> and leaves the clone as \<open>child2\<close>, and the gas sum
  \<open>g2\<close> fits. Let \<open>gasUsed\<close> and \<open>err\<close> be the gas count and the error after the clamp.
  Then the fee \<open>gas_price * gasUsed\<close> fits, and the outcome is the fee transfer and the
  result event applied to the merged child when \<open>err\<close> is nil, and applied to the block
  itself, without anything of the child, when \<open>err\<close> is not nil. In the second case, when
  the coinbase can hold the fee, the call returns \<open>(gasUsed, nil)\<close> and the balances differ
  from those before the call by the fee only, every account other than the sender's and
  the coinbase's being as it was.
\<close>

theorem VerifyExecution_merge_only_on_success:
  assumes base: "GasCountOfTxBase tx = Inr g" "unat g \<le> unat (tx_gasLimit tx)"
    and bal: "MinBalanceRequired tx = Inr m"
      "unat m \<le> unat (Balance (accState b) (address (tx_from tx)))"
    and load: "LoadPayload deps tx = Inr payload"
    and pgas: "Uint128_Add g (BaseGasCount deps payload) = Inr g1" "unat g1 \<le> unat (tx_gasLimit tx)"
    and clone: "Clone (b\<lparr> accState :=
                  fst (GetOrCreateUserAccount (accState b) (address (tx_from tx))) \<rparr>) = Inr txBlock"
    and moved: "transfer txBlock (tx_from tx) (tx_to tx) (tx_value tx) = (child1, None)"
    and exec: "Execute deps payload child1 tx = (child2, gasExecution, result, exeErr)"
    and total: "Uint128_Add g1 gasExecution = Inr g2"
    and clamp: "gasUsed = (if unat (tx_gasLimit tx) < unat g2 then tx_gasLimit tx else g2)"
      "err = (if unat (tx_gasLimit tx) < unat g2 then Some ErrOutOfGasLimit else exeErr)"
  shows "\<exists>fee. Uint128_Mul (tx_gasPrice tx) gasUsed = Inr fee \<and>
           unat fee = unat (tx_gasPrice tx) * unat gasUsed \<and>
           VerifyExecution deps tx (Some b) =
             (case transfer (if err = None then Merge b child2 else b)
                     (tx_from tx) (coinbase b) fee of
                (b3, Some e) \<Rightarrow> (Some b3, None, Some e)
              | (b3, None) \<Rightarrow>
                  (Some (fst (recordResultEvent deps tx b3 fee err)), Some gasUsed, None)) \<and>
           (err \<noteq> None \<and>
            (address (coinbase b) \<noteq> address (tx_from tx) \<longrightarrow>
               unat (Balance (accState b) (address (coinbase b))) + unat fee < 2 ^ 128) \<longrightarrow>
            (\<exists>b'. VerifyExecution deps tx (Some b) = (Some b', Some gasUsed, None) \<and>
               coinbase b' = coinbase b \<and>
               (address (coinbase b) = address (tx_from tx) \<longrightarrow>
                  (\<forall>a. Balance (accState b') a = Balance (accState b) a)) \<and>
               (address (coinbase b) \<noteq> address (tx_from tx) \<longrightarrow>
                  unat (Balance (accState b') (address (tx_from tx))) + unat fee
                    = unat (Balance (accState b) (address (tx_from tx))) \<and>
                  unat (Balance (accState b') (address (coinbase b)))
                    = unat (Balance (accState b) (address (coinbase b))) + unat fee) \<and>
               (\<forall>a. a \<noteq> address (tx_from tx) \<longrightarrow> a \<noteq> address (coinbase b) \<longrightarrow>
                  accState b' a = accState b a)))"
proof -
  let ?f = "address (tx_from tx)"
  let ?fee = "tx_gasPrice tx * gasUsed"
  have used: "unat gasUsed \<le> unat (tx_gasLimit tx)"
    using clamp(1) by simp
  have mul: "Uint128_Mul (tx_gasPrice tx) gasUsed = Inr ?fee"
    and ug: "unat ?fee = unat (tx_gasPrice tx) * unat gasUsed"
    and le: "unat ?fee \<le> unat m"
    using fee_within_limit [OF bal(1) used] by simp_all
  have val: "transfer b (tx_from tx) (tx_to tx) (tx_value tx) = (child1, None)"
  proof -
    have "GetOrCreateUserAccount (accState b) ?f
            = (fst (GetOrCreateUserAccount (accState b) ?f),
               snd (GetOrCreateUserAccount (accState b) ?f))"
      by simp
    from transfer_after_lookup [OF this] clone moved show ?thesis
      by (simp add: Clone_def)
  qed
  note run = VerifyExecution_settlement [OF base bal load pgas val exec total clamp mul]
  have fail: "\<exists>b'. VerifyExecution deps tx (Some b) = (Some b', Some gasUsed, None) \<and>
               coinbase b' = coinbase b \<and>
               (address (coinbase b) = ?f \<longrightarrow>
                  (\<forall>a. Balance (accState b') a = Balance (accState b) a)) \<and>
               (address (coinbase b) \<noteq> ?f \<longrightarrow>
                  unat (Balance (accState b') ?f) + unat ?fee = unat (Balance (accState b) ?f) \<and>
                  unat (Balance (accState b') (address (coinbase b)))
                    = unat (Balance (accState b) (address (coinbase b))) + unat ?fee) \<and>
               (\<forall>a. a \<noteq> ?f \<longrightarrow> a \<noteq> address (coinbase b) \<longrightarrow> accState b' a = accState b a)"
    if e: "err \<noteq> None"
      and fit: "address (coinbase b) \<noteq> ?f \<longrightarrow>
                unat (Balance (accState b) (address (coinbase b))) + unat ?fee < 2 ^ 128"
  proof -
    have cover: "unat ?fee \<le> unat (Balance (accState b) ?f)"
      using le bal(2) by simp
    from charge_fee [OF cover fit] obtain b2 where
      t: "transfer b (tx_from tx) (coinbase b) ?fee = (b2, None)"
      and props: "coinbase b2 = coinbase b"
        "address (coinbase b) = ?f \<longrightarrow> (\<forall>a. Balance (accState b2) a = Balance (accState b) a)"
        "address (coinbase b) \<noteq> ?f \<longrightarrow>
           unat (Balance (accState b2) ?f) + unat ?fee = unat (Balance (accState b) ?f) \<and>
           unat (Balance (accState b2) (address (coinbase b)))
             = unat (Balance (accState b) (address (coinbase b))) + unat ?fee"
        "\<forall>a. a \<noteq> ?f \<longrightarrow> a \<noteq> address (coinbase b) \<longrightarrow> accState b2 a = accState b a"
      by blast
    have "VerifyExecution deps tx (Some b)
            = (Some (fst (recordResultEvent deps tx b2 ?fee err)), Some gasUsed, None)"
      using run e t by simp
    then show ?thesis
      using props by (simp add: recordResultEvent_eq)
  qed
  show ?thesis
  proof (intro exI [of _ ?fee] conjI impI)
    show "Uint128_Mul (tx_gasPrice tx) gasUsed = Inr ?fee" by (rule mul)
    show "unat ?fee = unat (tx_gasPrice tx) * unat gasUsed" by (rule ug)
    show "VerifyExecution deps tx (Some b) =
            (case transfer (if err = None then Merge b child2 else b)
                    (tx_from tx) (coinbase b) ?fee of
               (b3, Some e) \<Rightarrow> (Some b3, None, Some e)
             | (b3, None) \<Rightarrow>
                 (Some (fst (recordResultEvent deps tx b3 ?fee err)), Some gasUsed, None))"
      by (rule run)
  next
    assume h: "err \<noteq> None \<and>
               (address (coinbase b) \<noteq> ?f \<longrightarrow>
                  unat (Balance (accState b) (address (coinbase b))) + unat ?fee < 2 ^ 128)"
    then have e: "err \<noteq> None"
      and fit: "address (coinbase b) \<noteq> ?f \<longrightarrow>
                unat (Balance (accState b) (address (coinbase b))) + unat ?fee < 2 ^ 128"
      by simp_all
    show "\<exists>b'. VerifyExecution deps tx (Some b) = (Some b', Some gasUsed, None) \<and>
               coinbase b' = coinbase b \<and>
               (address (coinbase b) = ?f \<longrightarrow>
                  (\<forall>a. Balance (accState b') a = Balance (accState b) a)) \<and>
               (address (coinbase b) \<noteq> ?f \<longrightarrow>
                  unat (Balance (accState b') ?f) + unat ?fee = unat (Balance (accState b) ?f) \<and>
                  unat (Balance (accState b') (address (coinbase b)))
                    = unat (Balance (accState b) (address (coinbase b))) + unat ?fee) \<and>
               (\<forall>a. a \<noteq> ?f \<longrightarrow> a \<noteq> address (coinbase b) \<longrightarrow> accState b' a = accState b a)"
      by (rule fail [OF e fit])
  qed
qed

text \<open>
  The theorem on the block where the sender owns 30,000,000,000. The deploy transaction
  sent to another address fails in the payload: the fee for 20,002 gas is charged and
  the recipient of the value has no account afterwards. The binary transaction succeeds:
  the recipient owns the value 100 and the coinbase the fee for 20,000 gas.
\<close>

theorem VerifyExecution_merge_only_on_success_witness:
  "(\<exists>b'. VerifyExecution ex_deps ex_tx_deploy (Some ex_block) = (Some b', Some 20002, None) \<and>
      unat (Balance (accState b') [1]) + 20002000000 = 30000000000 \<and>
      unat (Balance (accState b') [3]) = 20002000000 \<and>
      accState b' [2] = None) \<and>
   (\<exists>b'. VerifyExecution ex_deps ex_tx (Some ex_block) = (Some b', Some 20000, None) \<and>
      unat (Balance (accState b') [1]) = 9999999900 \<and>
      unat (Balance (accState b') [2]) = 100 \<and>
      unat (Balance (accState b') [3]) = 20000000000)"
proof
  let ?p = "\<lparr> SourceType = [], Source = [], Args = [] \<rparr>"
  let ?child = "fst (transfer ex_block (tx_from ex_tx_deploy) (tx_to ex_tx_deploy) (tx_value ex_tx_deploy))"
  have h: "GasCountOfTxBase ex_tx_deploy = Inr 20002"
    "unat (20002 :: uint128) \<le> unat (tx_gasLimit ex_tx_deploy)"
    "MinBalanceRequired ex_tx_deploy = Inr 21000000100"
    "unat (21000000100 :: uint128)
       \<le> unat (Balance (accState ex_block) (address (tx_from ex_tx_deploy)))"
    "LoadPayload ex_deps ex_tx_deploy = Inr (Deploy ?p)"
    "Uint128_Add 20002 (BaseGasCount ex_deps (Deploy ?p)) = Inr 20002"
    "unat (20002 :: uint128) \<le> unat (tx_gasLimit ex_tx_deploy)"
    by (simp_all add: ex_defs model_defs)
  have clone: "Clone (ex_block\<lparr> accState :=
                  fst (GetOrCreateUserAccount (accState ex_block) (address (tx_from ex_tx_deploy))) \<rparr>)
                 = Inr ex_block"
    by (simp add: ex_defs model_defs)
  have val: "transfer ex_block (tx_from ex_tx_deploy) (tx_to ex_tx_deploy) (tx_value ex_tx_deploy)
               = (?child, None)"
    by (simp add: prod_eq_iff) (simp add: ex_defs model_defs)
  have exec: "Execute ex_deps (Deploy ?p) ?child ex_tx_deploy
                = (?child, 0, [], Some ErrContractTransactionAddressNotEqual)"
    by (simp add: Execute_def DeployPayload_Execute_def Address_Equals_def NewUint128_def
          ex_tx_deploy_def ex_tx_def ex_sender_def ex_recipient_def)
  have total: "Uint128_Add 20002 0 = Inr 20002"
    by (simp add: Uint128_Add_def)
  have clamp: "(20002 :: uint128) = (if unat (tx_gasLimit ex_tx_deploy) < unat (20002 :: uint128)
                                    then tx_gasLimit ex_tx_deploy else 20002)"
    "Some ErrContractTransactionAddressNotEqual
       = (if unat (tx_gasLimit ex_tx_deploy) < unat (20002 :: uint128)
          then Some ErrOutOfGasLimit else Some ErrContractTransactionAddressNotEqual)"
    by (simp_all add: ex_defs)
  from VerifyExecution_merge_only_on_success [OF h clone val exec total clamp]
  show "\<exists>b'. VerifyExecution ex_deps ex_tx_deploy (Some ex_block) = (Some b', Some 20002, None) \<and>
      unat (Balance (accState b') [1]) + 20002000000 = 30000000000 \<and>
      unat (Balance (accState b') [3]) = 20002000000 \<and>
      accState b' [2] = None"
    by (auto simp: ex_defs model_defs)
next
  let ?p = "\<lparr> BinaryData = [] \<rparr>"
  let ?child = "fst (transfer ex_block (tx_from ex_tx) (tx_to ex_tx) (tx_value ex_tx))"
  have h: "GasCountOfTxBase ex_tx = Inr 20000"
    "unat (20000 :: uint128) \<le> unat (tx_gasLimit ex_tx)"
    "MinBalanceRequired ex_tx = Inr 21000000100"
    "unat (21000000100 :: uint128)
       \<le> unat (Balance (accState ex_block) (address (tx_from ex_tx)))"
    "LoadPayload ex_deps ex_tx = Inr (Binary ?p)"
    "Uint128_Add 20000 (BaseGasCount ex_deps (Binary ?p)) = Inr 20000"
    "unat (20000 :: uint128) \<le> unat (tx_gasLimit ex_tx)"
    by (simp_all add: ex_defs model_defs)
  have clone: "Clone (ex_block\<lparr> accState :=
                  fst (GetOrCreateUserAccount (accState ex_block) (address (tx_from ex_tx))) \<rparr>)
                 = Inr ex_block"
    by (simp add: ex_defs model_defs)
  have val: "transfer ex_block (tx_from ex_tx) (tx_to ex_tx) (tx_value ex_tx) = (?child, None)"
    by (simp add: prod_eq_iff) (simp add: ex_defs model_defs)
  have exec: "Execute ex_deps (Binary ?p) ?child ex_tx = (?child, 0, [], None)"
    by (simp add: Execute_def ex_deps_def ex_payloads_def)
  have total: "Uint128_Add 20000 0 = Inr 20000"
    by (simp add: Uint128_Add_def)
  have clamp: "(20000 :: uint128) = (if unat (tx_gasLimit ex_tx) < unat (20000 :: uint128)
                                    then tx_gasLimit ex_tx else 20000)"
    "None = (if unat (tx_gasLimit ex_tx) < unat (20000 :: uint128)
             then Some ErrOutOfGasLimit else None)"
    by (simp_all add: ex_defs)
  from VerifyExecution_merge_only_on_success [OF h clone val exec total clamp]
  show "\<exists>b'. VerifyExecution ex_deps ex_tx (Some ex_block) = (Some b', Some 20000, None) \<and>
      unat (Balance (accState b') [1]) = 9999999900 \<and>
      unat (Balance (accState b') [2]) = 100 \<and>
      unat (Balance (accState b') [3]) = 20000000000"
    by (auto simp: ex_defs model_defs)
qed

section \<open>The gas count in the result event\<close>

text \<open>
  C2 does not hold for the event of the last step. The two early failure paths record the
  gas count they return, but after a payload execution \<open>recordResultEvent\<close> is called
  with \<open>gas\<close>, the fee \<open>gas_price * gas_used\<close>. Here for the deploy transaction sent to
  another address (20,002 gas returned, 20,002,000,000 recorded) and for the binary
  transaction of the spec's scenario (20,000 gas returned, 20,000,000,000 recorded).
\<close>

theorem VerifyExecution_event_records_fee:
  "snd (VerifyExecution ex_deps ex_tx_deploy (Some ex_block)) = (Some 20002, None) \<and>
   map_option events (fst (VerifyExecution ex_deps ex_tx_deploy (Some ex_block)))
     = Some [([7], \<lparr> Topic = TopicTransactionExecutionResult,
                      EventData = ''20002000000 failed'' \<rparr>)] \<and>
   snd (VerifyExecution ex_deps ex_tx (Some ex_block)) = (Some 20000, None) \<and>
   map_option events (fst (VerifyExecution ex_deps ex_tx (Some ex_block)))
     = Some [([7], \<lparr> Topic = TopicTransactionExecutionResult,
                      EventData = ''20000000000 '' \<rparr>)] \<and>
   Uint128_String 20002 = ''20002'' \<and> Uint128_String 20000 = ''20000''"
  by (simp add: VerifyExecution_def Execute_def DeployPayload_Execute_def ex_defs model_defs
        decimal.simps)

section \<open>Deploy preconditions\<close>

text \<open>
  C8. \<open>DeployPayload.Execute\<close> on a block and a transaction checks, in this order and
  before it touches the block: the sender's address has to equal the recipient's, else it
  returns \<open>ContractTransactionAddressNotEqual\<close>; the payload gas limit has to be above
  zero, else it returns \<open>OutOfGasLimit\<close> (an error of \<open>PayloadGasLimit\<close>, which is
  \<open>OutOfGasLimit\<close> when the gas limit is below the base gas, is returned as it is). In
  all these cases the block is returned unchanged with zero gas, and whenever the block
  returned differs from the one given, both preconditions held.
\<close>

theorem DeployPayload_Execute_preconditions:
  "(\<not> Address_Equals (tx_from tx) (tx_to tx) \<longrightarrow>
      DeployPayload_Execute deps payload (Some b) (Some tx)
        = (Some b, 0, [], Some ErrContractTransactionAddressNotEqual)) \<and>
   (Address_Equals (tx_from tx) (tx_to tx) \<and>
    PayloadGasLimit deps tx (Some (Deploy payload)) = Inr lim \<and> \<not> 0 < unat lim \<longrightarrow>
      DeployPayload_Execute deps payload (Some b) (Some tx)
        = (Some b, 0, [], Some ErrOutOfGasLimit)) \<and>
   (Address_Equals (tx_from tx) (tx_to tx) \<and>
    PayloadGasLimit deps tx (Some (Deploy payload)) = Inl err \<longrightarrow>
      DeployPayload_Execute deps payload (Some b) (Some tx) = (Some b, 0, [], Some err)) \<and>
   (DeployPayload_Execute deps payload (Some b) (Some tx) = (b', gas, res, e) \<and> b' \<noteq> Some b \<longrightarrow>
      Address_Equals (tx_from tx) (tx_to tx) \<and>
      (\<exists>l. PayloadGasLimit deps tx (Some (Deploy payload)) = Inr l \<and> 0 < unat l))"
proof (intro conjI impI)
  assume "\<not> Address_Equals (tx_from tx) (tx_to tx)"
  then show "DeployPayload_Execute deps payload (Some b) (Some tx)
               = (Some b, 0, [], Some ErrContractTransactionAddressNotEqual)"
    by (simp add: DeployPayload_Execute_def NewUint128_def)
next
  assume "Address_Equals (tx_from tx) (tx_to tx) \<and>
          PayloadGasLimit deps tx (Some (Deploy payload)) = Inr lim \<and> \<not> 0 < unat lim"
  then show "DeployPayload_Execute deps payload (Some b) (Some tx)
               = (Some b, 0, [], Some ErrOutOfGasLimit)"
    by (simp add: DeployPayload_Execute_def NewUint128_def Uint128_Cmp_def)
next
  assume "Address_Equals (tx_from tx) (tx_to tx) \<and>
          PayloadGasLimit deps tx (Some (Deploy payload)) = Inl err"
  then show "DeployPayload_Execute deps payload (Some b) (Some tx) = (Some b, 0, [], Some err)"
    by (simp add: DeployPayload_Execute_def NewUint128_def)
next
  assume h: "DeployPayload_Execute deps payload (Some b) (Some tx) = (b', gas, res, e) \<and> b' \<noteq> Some b"
  have unchanged: "b' = Some b"
    if "DeployPayload_Execute deps payload (Some b) (Some tx) = (Some b, x)"
      and "DeployPayload_Execute deps payload (Some b) (Some tx) = (b', gas, res, e)" for x
  proof -
    from that have "fst (DeployPayload_Execute deps payload (Some b) (Some tx)) = Some b"
      and "fst (DeployPayload_Execute deps payload (Some b) (Some tx)) = b'"
      by simp_all
    then show ?thesis by simp
  qed
  show "Address_Equals (tx_from tx) (tx_to tx)"
  proof (rule ccontr)
    assume "\<not> Address_Equals (tx_from tx) (tx_to tx)"
    then have "DeployPayload_Execute deps payload (Some b) (Some tx)
                 = (Some b, 0, [], Some ErrContractTransactionAddressNotEqual)"
      by (simp add: DeployPayload_Execute_def NewUint128_def)
    from unchanged [OF this] h show False by simp
  qed
next
  assume h: "DeployPayload_Execute deps payload (Some b) (Some tx) = (b', gas, res, e) \<and> b' \<noteq> Some b"
  have unchanged: "b' = Some b"
    if "DeployPayload_Execute deps payload (Some b) (Some tx) = (Some b, x)"
      and "DeployPayload_Execute deps payload (Some b) (Some tx) = (b', gas, res, e)" for x
  proof -
    from that have "fst (DeployPayload_Execute deps payload (Some b) (Some tx)) = Some b"
      and "fst (DeployPayload_Execute deps payload (Some b) (Some tx)) = b'"
      by simp_all
    then show ?thesis by simp
  qed
  show "\<exists>l. PayloadGasLimit deps tx (Some (Deploy payload)) = Inr l \<and> 0 < unat l"
  proof (cases "Address_Equals (tx_from tx) (tx_to tx)")
    case False
    then have "DeployPayload_Execute deps payload (Some b) (Some tx)
                 = (Some b, 0, [], Some ErrContractTransactionAddressNotEqual)"
      by (simp add: DeployPayload_Execute_def NewUint128_def)
    from unchanged [OF this] h show ?thesis by simp
  next
    case True
    show ?thesis
    proof (cases "PayloadGasLimit deps tx (Some (Deploy payload))")
      case (Inl x)
      with True have "DeployPayload_Execute deps payload (Some b) (Some tx) = (Some b, 0, [], Some x)"
        by (simp add: DeployPayload_Execute_def NewUint128_def)
      from unchanged [OF this] h show ?thesis by simp
    next
      case (Inr l)
      show ?thesis
      proof (cases "0 < unat l")
        case True
        with Inr show ?thesis by simp
      next
        case False
        with True Inr have "DeployPayload_Execute deps payload (Some b) (Some tx)
                              = (Some b, 0, [], Some ErrOutOfGasLimit)"
          by (simp add: DeployPayload_Execute_def NewUint128_def Uint128_Cmp_def)
        from unchanged [OF this] h show ?thesis by simp
      qed
    qed
  qed
qed

text \<open>
  The theorem on the deploy transactions: sent to another address; sent to the sender
  with a gas limit equal to, and below, the base gas of 20,002; and with the limit 21,000,
  where the payload gas limit is 998 and the contract account is created.
\<close>

theorem DeployPayload_Execute_preconditions_witness:
  "DeployPayload_Execute ex_deps \<lparr> SourceType = [], Source = [], Args = [] \<rparr>
     (Some ex_block) (Some ex_tx_deploy)
     = (Some ex_block, 0, [], Some ErrContractTransactionAddressNotEqual) \<and>
   DeployPayload_Execute ex_deps \<lparr> SourceType = [], Source = [], Args = [] \<rparr>
     (Some ex_block) (Some (ex_tx_deploy_self\<lparr> tx_gasLimit := 20002 \<rparr>))
     = (Some ex_block, 0, [], Some ErrOutOfGasLimit) \<and>
   DeployPayload_Execute ex_deps \<lparr> SourceType = [], Source = [], Args = [] \<rparr>
     (Some ex_block) (Some (ex_tx_deploy_self\<lparr> tx_gasLimit := 20001 \<rparr>))
     = (Some ex_block, 0, [], Some ErrOutOfGasLimit) \<and>
   PayloadGasLimit ex_deps ex_tx_deploy_self
     (Some (Deploy \<lparr> SourceType = [], Source = [], Args = [] \<rparr>)) = Inr 998"
proof -
  let ?p = "\<lparr> SourceType = [], Source = [], Args = [] \<rparr>"
  let ?b2 = "ex_block\<lparr> accState := (accState ex_block)
                ([7] \<mapsto> \<lparr> balance = 0, nonce = 0, birthPlace = Some [7] \<rparr>) \<rparr>"
  have h1: "\<not> Address_Equals (tx_from ex_tx_deploy) (tx_to ex_tx_deploy)"
    by (simp add: ex_defs model_defs)
  have h2: "Address_Equals (tx_from (ex_tx_deploy_self\<lparr> tx_gasLimit := 20002 \<rparr>))
              (tx_to (ex_tx_deploy_self\<lparr> tx_gasLimit := 20002 \<rparr>)) \<and>
            PayloadGasLimit ex_deps (ex_tx_deploy_self\<lparr> tx_gasLimit := 20002 \<rparr>) (Some (Deploy ?p))
              = Inr 0 \<and> \<not> 0 < unat (0 :: uint128)"
    by (simp add: ex_defs model_defs)
  have h3: "Address_Equals (tx_from (ex_tx_deploy_self\<lparr> tx_gasLimit := 20001 \<rparr>))
              (tx_to (ex_tx_deploy_self\<lparr> tx_gasLimit := 20001 \<rparr>)) \<and>
            PayloadGasLimit ex_deps (ex_tx_deploy_self\<lparr> tx_gasLimit := 20001 \<rparr>) (Some (Deploy ?p))
              = Inl ErrOutOfGasLimit"
    by (simp add: ex_defs model_defs)
  have run: "DeployPayload_Execute ex_deps ?p (Some ex_block) (Some ex_tx_deploy_self)
               = (Some ?b2, 100, [], None)"
    by (simp add: DeployPayload_Execute_def ex_defs model_defs)
  have d: "accState ?b2 [7] \<noteq> accState ex_block [7]"
    by (simp add: ex_defs)
  have ne: "Some ?b2 \<noteq> Some ex_block"
  proof
    assume "Some ?b2 = Some ex_block"
    then have "?b2 = ex_block" by (rule option.inject [THEN iffD1])
    then have "accState ?b2 [7] = accState ex_block [7]"
      by (rule arg_cong [where f = "\<lambda>x. accState x [7]"])
    with d show False by contradiction
  qed
  have h4: "DeployPayload_Execute ex_deps ?p (Some ex_block) (Some ex_tx_deploy_self)
               = (Some ?b2, 100, [], None) \<and> Some ?b2 \<noteq> Some ex_block"
    using run ne by simp
  have lim: "PayloadGasLimit ex_deps ex_tx_deploy_self (Some (Deploy ?p)) = Inr 998"
    by (simp add: ex_defs model_defs)
  from DeployPayload_Execute_preconditions
         [where tx = ex_tx_deploy and deps = ex_deps and payload = ?p and b = ex_block] h1
  have r1: "DeployPayload_Execute ex_deps ?p (Some ex_block) (Some ex_tx_deploy)
              = (Some ex_block, 0, [], Some ErrContractTransactionAddressNotEqual)"
    by blast
  from DeployPayload_Execute_preconditions
         [where tx = "ex_tx_deploy_self\<lparr> tx_gasLimit := 20002 \<rparr>" and deps = ex_deps
            and payload = ?p and b = ex_block and lim = 0] h2
  have r2: "DeployPayload_Execute ex_deps ?p (Some ex_block)
              (Some (ex_tx_deploy_self\<lparr> tx_gasLimit := 20002 \<rparr>))
              = (Some ex_block, 0, [], Some ErrOutOfGasLimit)"
    by blast
  from DeployPayload_Execute_preconditions
         [where tx = "ex_tx_deploy_self\<lparr> tx_gasLimit := 20001 \<rparr>" and deps = ex_deps
            and payload = ?p and b = ex_block and err = ErrOutOfGasLimit] h3
  have r3: "DeployPayload_Execute ex_deps ?p (Some ex_block)
              (Some (ex_tx_deploy_self\<lparr> tx_gasLimit := 20001 \<rparr>))
              = (Some ex_block, 0, [], Some ErrOutOfGasLimit)"
    by blast
  from DeployPayload_Execute_preconditions
         [where tx = ex_tx_deploy_self and deps = ex_deps and payload = ?p and b = ex_block
            and b' = "Some ?b2" and gas = 100 and res = "[]" and e = None] h4
  have r4: "\<exists>l. PayloadGasLimit ex_deps ex_tx_deploy_self (Some (Deploy ?p)) = Inr l \<and> 0 < unat l"
    by blast
  from r1 r2 r3 r4 lim show ?thesis by simp
qed

section \<open>Integrity checks\<close>

text \<open>
  C6. \<open>VerifyIntegrity\<close> returns \<open>InvalidChainID\<close> when the chain id differs from the
  expected one. Otherwise, when the recomputed hash differs from the stored hash, it
  returns \<open>InvalidTransactionHash\<close>. Otherwise, when a public key is recovered from the
  stored hash and the signature and an address is derived from it, it returns
  \<open>InvalidTransactionSigner\<close> exactly when that address differs from the sender's, and
  nil when they are equal.
\<close>

theorem VerifyIntegrity_checks_in_order:
  "(tx_chainID tx \<noteq> chainID \<longrightarrow> VerifyIntegrity deps tx chainID = Some ErrInvalidChainID) \<and>
   (tx_chainID tx = chainID \<and> HashTransaction deps tx = Inr wantedHash \<and>
    wantedHash \<noteq> tx_hash tx \<longrightarrow>
      VerifyIntegrity deps tx chainID = Some ErrInvalidTransactionHash) \<and>
   (tx_chainID tx = chainID \<and> HashTransaction deps tx = Inr (tx_hash tx) \<and>
    NewSignature (crypto deps) (tx_alg tx) = Inr signature \<and>
    RecoverPublic (crypto deps) signature (tx_hash tx) (tx_sign tx) = Inr pub \<and>
    Encoded (crypto deps) pub = Inr pubdata \<and>
    NewAddressFromPublicKey (crypto deps) pubdata = Inr addr \<longrightarrow>
      VerifyIntegrity deps tx chainID
        = (if address addr \<noteq> address (tx_from tx) then Some ErrInvalidTransactionSigner else None))"
  by (auto simp: VerifyIntegrity_def verifySign_def Address_Equals_def)

text \<open>
  The theorem on the scenario transaction, whose stored hash and signature fit the model
  collaborators: a wrong chain id, a wrong stored hash, the intact transaction, and a
  signature that recovers another address.
\<close>

theorem VerifyIntegrity_checks_in_order_witness:
  "VerifyIntegrity ex_deps ex_tx 2 = Some ErrInvalidChainID \<and>
   VerifyIntegrity ex_deps (ex_tx\<lparr> tx_hash := [8] \<rparr>) 1 = Some ErrInvalidTransactionHash \<and>
   VerifyIntegrity ex_deps ex_tx 1 = None \<and>
   VerifyIntegrity ex_deps (ex_tx\<lparr> tx_sign := [2] \<rparr>) 1 = Some ErrInvalidTransactionSigner"
proof -
  have h1: "tx_chainID ex_tx \<noteq> 2"
    by (simp add: ex_defs)
  have h2: "tx_chainID (ex_tx\<lparr> tx_hash := [8] \<rparr>) = 1 \<and>
            HashTransaction ex_deps (ex_tx\<lparr> tx_hash := [8] \<rparr>) = Inr [7] \<and>
            [7] \<noteq> tx_hash (ex_tx\<lparr> tx_hash := [8] \<rparr>)"
    by (simp add: HashTransaction_def ToFixedSizeByteSlice_def ex_defs)
  have h3: "tx_chainID ex_tx = 1 \<and> HashTransaction ex_deps ex_tx = Inr (tx_hash ex_tx) \<and>
            NewSignature (crypto ex_deps) (tx_alg ex_tx) = Inr 1 \<and>
            RecoverPublic (crypto ex_deps) 1 (tx_hash ex_tx) (tx_sign ex_tx) = Inr [1] \<and>
            Encoded (crypto ex_deps) [1] = Inr [1] \<and>
            NewAddressFromPublicKey (crypto ex_deps) [1] = Inr \<lparr> address = [1] \<rparr>"
    by (simp add: HashTransaction_def ToFixedSizeByteSlice_def ex_defs)
  have h4: "tx_chainID (ex_tx\<lparr> tx_sign := [2] \<rparr>) = 1 \<and>
            HashTransaction ex_deps (ex_tx\<lparr> tx_sign := [2] \<rparr>) = Inr (tx_hash (ex_tx\<lparr> tx_sign := [2] \<rparr>)) \<and>
            NewSignature (crypto ex_deps) (tx_alg (ex_tx\<lparr> tx_sign := [2] \<rparr>)) = Inr 1 \<and>
            RecoverPublic (crypto ex_deps) 1 (tx_hash (ex_tx\<lparr> tx_sign := [2] \<rparr>))
              (tx_sign (ex_tx\<lparr> tx_sign := [2] \<rparr>)) = Inr [2] \<and>
            Encoded (crypto ex_deps) [2] = Inr [2] \<and>
            NewAddressFromPublicKey (crypto ex_deps) [2] = Inr \<lparr> address = [2] \<rparr>"
    by (simp add: HashTransaction_def ToFixedSizeByteSlice_def ex_defs)
  from VerifyIntegrity_checks_in_order [where tx = ex_tx and chainID = 2 and deps = ex_deps] h1
  have r1: "VerifyIntegrity ex_deps ex_tx 2 = Some ErrInvalidChainID"
    by blast
  from VerifyIntegrity_checks_in_order
         [where tx = "ex_tx\<lparr> tx_hash := [8] \<rparr>" and chainID = 1 and deps = ex_deps
            and wantedHash = "[7]"] h2
  have r2: "VerifyIntegrity ex_deps (ex_tx\<lparr> tx_hash := [8] \<rparr>) 1 = Some ErrInvalidTransactionHash"
    by blast
  from VerifyIntegrity_checks_in_order
         [where tx = ex_tx and chainID = 1 and deps = ex_deps and signature = 1 and pub = "[1]"
            and pubdata = "[1]" and addr = "\<lparr> address = [1] \<rparr>"] h3
  have r3: "VerifyIntegrity ex_deps ex_tx 1 = None"
    by (simp add: ex_defs)
  from VerifyIntegrity_checks_in_order
         [where tx = "ex_tx\<lparr> tx_sign := [2] \<rparr>" and chainID = 1 and deps = ex_deps
            and signature = 1 and pub = "[2]" and pubdata = "[2]" and addr = "\<lparr> address = [2] \<rparr>"] h4
  have r4: "VerifyIntegrity ex_deps (ex_tx\<lparr> tx_sign := [2] \<rparr>) 1 = Some ErrInvalidTransactionSigner"
    by (simp add: ex_defs)
  from r1 r2 r3 r4 show ?thesis by simp
qed

end
